theory Spec2Isabelle
  imports Complex_Main
begin

section \<open>Python values\<close>

text \<open>
  The service is written in Python. An account record is a \<^verbatim>\<open>dict\<close> from field names to
  dynamically typed values; the values that reach the predictor (from a decoded JSON body or
  from the rows of a CSV file) are \<^verbatim>\<open>None\<close>, booleans, integers, floats and strings.

  A Python float is modelled as a real number or one of the three special values of
  IEEE arithmetic. Rounding is not modelled: a result within the range of a double is the
  exact real. The range is modelled: a result beyond it is an infinity, and the conversion
  of an integer beyond it raises. Strings are lists of ASCII characters.
\<close>

datatype pyfloat = Fin real | PosInf | NegInf | NaN

datatype pyval = PNone | PBool bool | PInt int | PFloat pyfloat | PStr string

datatype pyerr = ValueError | TypeError | OverflowError | KeyError | IndexError
  | ZeroDivisionError | LibraryError

type_synonym record_dict = "string \<rightharpoonup> pyval"

subsection \<open>Float comparison and arithmetic\<close>

text \<open>
  The range of a double. An exact result overflows when it rounds beyond the largest
  double \<^verbatim>\<open>2^1024 - 2^971\<close>, that is when its magnitude reaches \<^verbatim>\<open>2^1024 - 2^970\<close>.
\<close>

definition overflow_bound :: real where
  "overflow_bound = 2 ^ 1024 - 2 ^ 970"

definition overflow :: "real \<Rightarrow> pyfloat" where
  "overflow x = (if \<bar>x\<bar> < overflow_bound then Fin x else if 0 < x then PosInf else NegInf)"

text \<open>\<^verbatim>\<open>float(n)\<close> for an integer raises \<^verbatim>\<open>OverflowError\<close> beyond the range.\<close>

definition float_of_int :: "int \<Rightarrow> pyerr + pyfloat" where
  "float_of_int n =
     (if \<bar>real_of_int n\<bar> < overflow_bound then Inr (Fin (real_of_int n)) else Inl OverflowError)"

text \<open>\<^verbatim>\<open>a > b\<close>, \<^verbatim>\<open>a < b\<close> on floats: every comparison with NaN is false.\<close>

fun flt :: "pyfloat \<Rightarrow> pyfloat \<Rightarrow> bool" where
  "flt NaN _ = False"
| "flt _ NaN = False"
| "flt (Fin a) (Fin b) = (a < b)"
| "flt NegInf NegInf = False"
| "flt NegInf _ = True"
| "flt _ NegInf = False"
| "flt PosInf _ = False"
| "flt (Fin a) PosInf = True"

definition fgt :: "pyfloat \<Rightarrow> pyfloat \<Rightarrow> bool" where
  "fgt a b = flt b a"

fun fle :: "pyfloat \<Rightarrow> pyfloat \<Rightarrow> bool" where
  "fle NaN _ = False"
| "fle _ NaN = False"
| "fle a b = (\<not> flt b a)"

fun fneg :: "pyfloat \<Rightarrow> pyfloat" where
  "fneg (Fin a) = Fin (- a)"
| "fneg PosInf = NegInf"
| "fneg NegInf = PosInf"
| "fneg NaN = NaN"

fun fabs :: "pyfloat \<Rightarrow> pyfloat" where
  "fabs (Fin a) = Fin \<bar>a\<bar>"
| "fabs PosInf = PosInf"
| "fabs NegInf = PosInf"
| "fabs NaN = NaN"

fun fadd :: "pyfloat \<Rightarrow> pyfloat \<Rightarrow> pyfloat" where
  "fadd NaN _ = NaN"
| "fadd _ NaN = NaN"
| "fadd (Fin a) (Fin b) = overflow (a + b)"
| "fadd PosInf NegInf = NaN"
| "fadd NegInf PosInf = NaN"
| "fadd PosInf _ = PosInf"
| "fadd NegInf _ = NegInf"
| "fadd (Fin a) b = b"

definition fsub :: "pyfloat \<Rightarrow> pyfloat \<Rightarrow> pyfloat" where
  "fsub a b = fadd a (fneg b)"

text \<open>The sign of a float that is not NaN, for the product with an infinity.\<close>

fun fsign :: "pyfloat \<Rightarrow> int" where
  "fsign (Fin a) = (if a < 0 then - 1 else if a = 0 then 0 else 1)"
| "fsign PosInf = 1"
| "fsign NegInf = - 1"
| "fsign NaN = 0"

fun fmul :: "pyfloat \<Rightarrow> pyfloat \<Rightarrow> pyfloat" where
  "fmul NaN _ = NaN"
| "fmul _ NaN = NaN"
| "fmul (Fin a) (Fin b) = overflow (a * b)"
| "fmul a b =
     (let s = fsign a * fsign b
      in if s = 0 then NaN else if 0 < s then PosInf else NegInf)"

text \<open>
  \<^verbatim>\<open>a / b\<close> on Python floats raises \<^verbatim>\<open>ZeroDivisionError\<close> when the divisor is zero; sums,
  products and quotients that overflow are infinities, without an exception.
\<close>

fun fdiv :: "pyfloat \<Rightarrow> pyfloat \<Rightarrow> pyerr + pyfloat" where
  "fdiv a (Fin b) =
     (if b = 0 then Inl ZeroDivisionError
      else case a of
          Fin x \<Rightarrow> Inr (overflow (x / b))
        | NaN \<Rightarrow> Inr NaN
        | _ \<Rightarrow> Inr (fmul a (Fin b)))"
| "fdiv a NaN = Inr NaN"
| "fdiv (Fin x) _ = Inr (Fin 0)"
| "fdiv NaN _ = Inr NaN"
| "fdiv _ _ = Inr NaN"

text \<open>\<^verbatim>\<open>min(a, b)\<close> returns its first argument unless the second is smaller.\<close>

definition fmin :: "pyfloat \<Rightarrow> pyfloat \<Rightarrow> pyfloat" where
  "fmin a b = (if flt b a then b else a)"

text \<open>
  \<^verbatim>\<open>int(x)\<close> on a float truncates towards zero; infinities raise \<^verbatim>\<open>OverflowError\<close> and NaN
  raises \<^verbatim>\<open>ValueError\<close>.
\<close>

definition trunc :: "real \<Rightarrow> int" where
  "trunc x = (if 0 \<le> x then \<lfloor>x\<rfloor> else \<lceil>x\<rceil>)"

fun int_of_float :: "pyfloat \<Rightarrow> pyerr + int" where
  "int_of_float (Fin x) = Inr (trunc x)"
| "int_of_float NaN = Inl ValueError"
| "int_of_float _ = Inl OverflowError"

text \<open>\<^verbatim>\<open>round(x, 2)\<close>: to two decimals, ties to the even neighbour.\<close>

definition round_half_even :: "real \<Rightarrow> int" where
  "round_half_even x =
     (let f = \<lfloor>x\<rfloor>; d = x - of_int f
      in if d < 1 / 2 then f else if 1 / 2 < d then f + 1
         else if even f then f else f + 1)"

fun fround2 :: "pyfloat \<Rightarrow> pyfloat" where
  "fround2 (Fin x) = Fin (of_int (round_half_even (x * 100)) / 100)"
| "fround2 a = a"

text \<open>
  \<^verbatim>\<open>numpy.log1p\<close>: the logarithm of \<open>1 + x\<close>. Outside the domain numpy does not raise: it
  returns \<open>-inf\<close> at \<open>-1\<close> and NaN below \<open>-1\<close> (with a runtime warning).
\<close>

fun log1p :: "pyfloat \<Rightarrow> pyfloat" where
  "log1p (Fin x) = (if - 1 < x then Fin (ln (1 + x)) else if x = - 1 then NegInf else NaN)"
| "log1p PosInf = PosInf"
| "log1p NegInf = NaN"
| "log1p NaN = NaN"

subsection \<open>Strings\<close>

definition is_space :: "char \<Rightarrow> bool" where
  "is_space c = (let n = (of_char c :: nat) in (9 \<le> n \<and> n \<le> 13) \<or> n = 32)"

definition is_digit :: "char \<Rightarrow> bool" where
  "is_digit c = (let n = (of_char c :: nat) in 48 \<le> n \<and> n \<le> 57)"

definition is_lower :: "char \<Rightarrow> bool" where
  "is_lower c = (let n = (of_char c :: nat) in 97 \<le> n \<and> n \<le> 122)"

definition is_upper :: "char \<Rightarrow> bool" where
  "is_upper c = (let n = (of_char c :: nat) in 65 \<le> n \<and> n \<le> 90)"

definition to_upper :: "char \<Rightarrow> char" where
  "to_upper c = (if is_lower c then char_of ((of_char c :: nat) - 32) else c)"

definition to_lower :: "char \<Rightarrow> char" where
  "to_lower c = (if is_upper c then char_of ((of_char c :: nat) + 32) else c)"

text \<open>\<^verbatim>\<open>s.upper()\<close>, and the removal of the whitespace around a number: the space and the
  five control characters from tab to carriage return.\<close>

definition upper :: "string \<Rightarrow> string" where
  "upper s = map to_upper s"

definition strip :: "string \<Rightarrow> string" where
  "strip s = rev (dropWhile is_space (rev (dropWhile is_space s)))"

text \<open>\<^verbatim>\<open>str(n)\<close> for an integer: its decimal digits.\<close>

fun nat_digits :: "nat \<Rightarrow> string" where
  "nat_digits n =
     (if n < 10 then [char_of (48 + n)]
      else nat_digits (n div 10) @ [char_of (48 + n mod 10)])"

declare nat_digits.simps [simp del]

definition str_of_int :: "int \<Rightarrow> string" where
  "str_of_int i = (if i < 0 then CHR ''-'' # nat_digits (nat (- i)) else nat_digits (nat i))"

subsection \<open>Parsing numbers\<close>

text \<open>
  \<^verbatim>\<open>float(s)\<close> and \<^verbatim>\<open>int(s)\<close> on a string follow Python's grammar: surrounding whitespace
  is ignored, a sign may come first, digits may be grouped by single underscores, a float
  may have a fraction and an exponent or be one of \<^verbatim>\<open>inf\<close>, \<^verbatim>\<open>infinity\<close>, \<^verbatim>\<open>nan\<close> in any
  letter case. Anything else is a \<^verbatim>\<open>ValueError\<close>, here \<open>None\<close>. A decimal beyond the range
  of a double is an infinity (\<^verbatim>\<open>float("1e999")\<close> is \<^verbatim>\<open>inf\<close>).
\<close>

fun digits_us :: "bool \<Rightarrow> string \<Rightarrow> string option" where
  "digits_us prev [] = (if prev then Some [] else None)"
| "digits_us prev (c # cs) =
     (if is_digit c then map_option ((#) c) (digits_us True cs)
      else if c = CHR ''_'' \<and> prev \<and> cs \<noteq> [] \<and> is_digit (hd cs) then digits_us False cs
      else None)"

definition digitpart :: "string \<Rightarrow> string option" where
  "digitpart s = digits_us False s"

definition nat_of_digits :: "string \<Rightarrow> nat" where
  "nat_of_digits ds = foldl (\<lambda>n c. 10 * n + ((of_char c :: nat) - 48)) 0 ds"

definition split_sign :: "string \<Rightarrow> bool \<times> string" where
  "split_sign s =
     (case s of
        [] \<Rightarrow> (False, [])
      | c # cs \<Rightarrow> if c = CHR ''-'' then (True, cs) else if c = CHR ''+'' then (False, cs)
                 else (False, s))"

definition int_of_string :: "string \<Rightarrow> int option" where
  "int_of_string s =
     (let (neg, body) = split_sign (strip s)
      in map_option (\<lambda>ds. if neg then - int (nat_of_digits ds) else int (nat_of_digits ds))
           (digitpart body))"

text \<open>The mantissa: \<^verbatim>\<open>[digitpart] "." digitpart | digitpart ["."]\<close>, as its digits before
  and after the point.\<close>

definition mantissa :: "string \<Rightarrow> (string \<times> string) option" where
  "mantissa m =
     (let ip = takeWhile (\<lambda>c. c \<noteq> CHR ''.'') m;
          fr = dropWhile (\<lambda>c. c \<noteq> CHR ''.'') m
      in if fr = [] \<or> tl fr = [] then map_option (\<lambda>ds. (ds, [])) (digitpart ip)
         else if ip = [] then map_option (\<lambda>fs. ([], fs)) (digitpart (tl fr))
         else case digitpart ip of
                None \<Rightarrow> None
              | Some ds \<Rightarrow> map_option (\<lambda>fs. (ds, fs)) (digitpart (tl fr)))"

definition exponent :: "string \<Rightarrow> int option" where
  "exponent r =
     (if r = [] then Some 0
      else let (neg, body) = split_sign (tl r)
           in map_option (\<lambda>ds. if neg then - int (nat_of_digits ds) else int (nat_of_digits ds))
                (digitpart body))"

definition decimal_value :: "string \<Rightarrow> real option" where
  "decimal_value body =
     (let is_e = (\<lambda>c. c = CHR ''e'' \<or> c = CHR ''E'');
          m = takeWhile (\<lambda>c. \<not> is_e c) body;
          r = dropWhile (\<lambda>c. \<not> is_e c) body
      in case mantissa m of
           None \<Rightarrow> None
         | Some (ds, fs) \<Rightarrow>
             (case exponent r of
                None \<Rightarrow> None
              | Some e \<Rightarrow>
                  let n = real (nat_of_digits (ds @ fs)); k = e - int (length fs)
                  in Some (if 0 \<le> k then n * 10 ^ nat k else n / 10 ^ nat (- k))))"

definition float_of_string :: "string \<Rightarrow> pyfloat option" where
  "float_of_string s =
     (let (neg, body) = split_sign (strip s); low = map to_lower body
      in if low = ''inf'' \<or> low = ''infinity'' then Some (if neg then NegInf else PosInf)
         else if low = ''nan'' then Some NaN
         else map_option (\<lambda>x. overflow (if neg then - x else x)) (decimal_value body))"

subsection \<open>Built-in conversions\<close>

text \<open>Truthiness, as used by \<^verbatim>\<open>x or 0\<close> and \<^verbatim>\<open>bool(x)\<close>: NaN is true, zero is false.\<close>

fun truthy :: "pyval \<Rightarrow> bool" where
  "truthy PNone = False"
| "truthy (PBool b) = b"
| "truthy (PInt i) = (i \<noteq> 0)"
| "truthy (PFloat f) = (f \<noteq> Fin 0)"
| "truthy (PStr s) = (s \<noteq> [])"

definition py_or :: "pyval \<Rightarrow> pyval \<Rightarrow> pyval" where
  "py_or a b = (if truthy a then a else b)"

fun py_float :: "pyval \<Rightarrow> pyerr + pyfloat" where
  "py_float PNone = Inl TypeError"
| "py_float (PBool b) = Inr (Fin (if b then 1 else 0))"
| "py_float (PInt i) = float_of_int i"
| "py_float (PFloat f) = Inr f"
| "py_float (PStr s) = (case float_of_string s of None \<Rightarrow> Inl ValueError | Some f \<Rightarrow> Inr f)"

fun py_int :: "pyval \<Rightarrow> pyerr + int" where
  "py_int PNone = Inl TypeError"
| "py_int (PBool b) = Inr (if b then 1 else 0)"
| "py_int (PInt i) = Inr i"
| "py_int (PFloat f) = int_of_float f"
| "py_int (PStr s) = (case int_of_string s of None \<Rightarrow> Inl ValueError | Some i \<Rightarrow> Inr i)"

text \<open>
  \<^verbatim>\<open>str(v)\<close>. The shortest decimal text that Python prints for a finite float is not a
  function of an idealised real, so it is a parameter \<open>frepr\<close> of everything that calls
  \<^verbatim>\<open>str\<close>; no result below depends on what it returns.
\<close>

fun py_str :: "(real \<Rightarrow> string) \<Rightarrow> pyval \<Rightarrow> string" where
  "py_str frepr PNone = ''None''"
| "py_str frepr (PBool b) = (if b then ''True'' else ''False'')"
| "py_str frepr (PInt i) = str_of_int i"
| "py_str frepr (PFloat (Fin x)) = frepr x"
| "py_str frepr (PFloat PosInf) = ''inf''"
| "py_str frepr (PFloat NegInf) = ''-inf''"
| "py_str frepr (PFloat NaN) = ''nan''"
| "py_str frepr (PStr s) = s"

text \<open>\<^verbatim>\<open>d.get(k, default)\<close>.\<close>

definition dict_get :: "record_dict \<Rightarrow> string \<Rightarrow> pyval \<Rightarrow> pyval" where
  "dict_get d k dflt = (case d k of None \<Rightarrow> dflt | Some v \<Rightarrow> v)"

text \<open>Sequencing of computations that may raise.\<close>

definition bind :: "pyerr + 'a \<Rightarrow> ('a \<Rightarrow> pyerr + 'b) \<Rightarrow> pyerr + 'b" where
  "bind m f = (case m of Inl e \<Rightarrow> Inl e | Inr x \<Rightarrow> f x)"

text \<open>\<^verbatim>\<open>float(data.get(k, 0) or 0)\<close> and \<^verbatim>\<open>int(data.get(k, 0) or 0)\<close>.\<close>

definition get_float :: "record_dict \<Rightarrow> string \<Rightarrow> pyerr + pyfloat" where
  "get_float d k = py_float (py_or (dict_get d k (PInt 0)) (PInt 0))"

definition get_int :: "record_dict \<Rightarrow> string \<Rightarrow> pyerr + int" where
  "get_int d k = py_int (py_or (dict_get d k (PInt 0)) (PInt 0))"

section \<open>The feature encoder\<close>

text \<open>
  A pandas \<^verbatim>\<open>DataFrame\<close>: the column names in order, and the rows, each holding one cell per
  column. A cell of a numeric column is an integer or a float.
\<close>

datatype cell = CInt int | CFloat pyfloat

record dataframe =
  columns :: "string list"
  rows :: "cell list list"

text \<open>\<^verbatim>\<open>pd.DataFrame([features])\<close>: one row, the columns in the order of the dictionary.\<close>

definition DataFrame :: "(string \<times> cell) list \<Rightarrow> dataframe" where
  "DataFrame features = \<lparr>columns = map fst features, rows = [map snd features]\<rparr>"

text \<open>\<^verbatim>\<open>df[feat] = v\<close>: overwrite the column when it exists, append it otherwise.\<close>

definition set_column :: "string \<Rightarrow> cell \<Rightarrow> dataframe \<Rightarrow> dataframe" where
  "set_column feat v df =
     (if feat \<in> set (columns df)
      then df\<lparr>rows := map (\<lambda>r. map (\<lambda>(c, x). if c = feat then v else x) (zip (columns df) r))
                          (rows df)\<rparr>
      else \<lparr>columns = columns df @ [feat], rows = map (\<lambda>r. r @ [v]) (rows df)\<rparr>)"

text \<open>The cell of a row under a column name.\<close>

definition cell_at :: "string list \<Rightarrow> cell list \<Rightarrow> string \<Rightarrow> cell option" where
  "cell_at cols r name = map_of (zip cols r) name"

text \<open>
  \<^verbatim>\<open>df[names]\<close>: the named columns in the order given; a name that is not a column raises
  \<^verbatim>\<open>KeyError\<close>.
\<close>

definition select_columns :: "dataframe \<Rightarrow> string list \<Rightarrow> pyerr + dataframe" where
  "select_columns df names =
     (case those (map (\<lambda>r. those (map (cell_at (columns df) r) names)) (rows df)) of
        None \<Rightarrow> Inl KeyError
      | Some rs \<Rightarrow> if set names \<subseteq> set (columns df)
                  then Inr \<lparr>columns = names, rows = rs\<rparr> else Inl KeyError)"

text \<open>
  The predictor object: the classifier of the loaded artifact, if any, and the feature names
  the artifact declares. The classifier is opaque; \<open>model\<close> stands for
  \<^verbatim>\<open>float(self.model.predict_proba(X)[0][1])\<close>, which returns a float or raises.
\<close>

record predictor =
  model :: "(dataframe \<Rightarrow> pyerr + pyfloat) option"
  feature_names :: "string list"

text \<open>
  A boolean-like field: a string is compared, in upper case, with the three accepted tokens;
  any other value counts by its truthiness.
\<close>

definition bool_feature :: "record_dict \<Rightarrow> string \<Rightarrow> int" where
  "bool_feature data k =
     (case dict_get data k (PInt 0) of
        PStr s \<Rightarrow> if upper s \<in> set [''TRUE'', ''1'', ''YES''] then 1 else 0
      | v \<Rightarrow> if truthy v then 1 else 0)"

definition normalize_industry :: "string \<Rightarrow> string" where
  "normalize_industry industry_raw =
     (if industry_raw = ''Technology'' then ''Tech'' else industry_raw)"

definition one_hot :: "string \<Rightarrow> string \<Rightarrow> cell" where
  "one_hot v category = CInt (if v = category then 1 else 0)"

text \<open>The final step of \<^verbatim>\<open>prepare_features\<close>: match the artifact's feature names.\<close>

definition align :: "string list \<Rightarrow> dataframe \<Rightarrow> pyerr + dataframe" where
  "align names df =
     (if names \<noteq> [] then
        let missing_features = filter (\<lambda>f. f \<notin> set (columns df)) (remdups names);
            df' = fold (\<lambda>feat d. set_column feat (CInt 0) d) missing_features df
        in select_columns df' names
      else Inr df)"

definition synthesize ::
  "pyfloat \<Rightarrow> int \<Rightarrow> pyfloat \<Rightarrow> pyfloat \<Rightarrow> int \<Rightarrow> pyfloat \<Rightarrow> int \<Rightarrow> int \<Rightarrow> int \<Rightarrow> int \<Rightarrow> int
     \<Rightarrow> string \<Rightarrow> string \<Rightarrow> (string \<times> cell) list" where
  "synthesize amount days_overdue payment_history shipment_change shipment_volume
     express_ratio destination_div contact_attempts customer_tenure email_opened dispute_flag
     industry region =
     [(''amount_log'', CFloat (log1p amount)),
      (''days_overdue'', CInt days_overdue),
      (''payment_history_score'', CFloat payment_history),
      (''shipment_volume_change_30d'', CFloat shipment_change),
      (''shipment_volume_30d'', CInt shipment_volume),
      (''express_ratio'', CFloat express_ratio),
      (''destination_diversity'', CInt destination_div),
      (''contact_attempts'', CInt contact_attempts),
      (''customer_tenure_months'', CInt customer_tenure),
      (''email_opened'', CInt email_opened),
      (''dispute_flag'', CInt dispute_flag),
      (''industry_Construction'', one_hot industry ''Construction''),
      (''industry_Medical'', one_hot industry ''Medical''),
      (''industry_Retail'', one_hot industry ''Retail''),
      (''industry_Tech'', one_hot industry ''Tech''),
      (''industry_Textile'', one_hot industry ''Textile''),
      (''region_East'', one_hot region ''East''),
      (''region_North'', one_hot region ''North''),
      (''region_South'', one_hot region ''South''),
      (''region_West'', one_hot region ''West'')]"

text \<open>
  \<^verbatim>\<open>prepare_features\<close>, lines 71 to 131: the dictionary \<^verbatim>\<open>features\<close>. The nine numeric
  fields are coerced in the order of the source, so the first malformed one decides the
  exception.
\<close>

definition features_of :: "(real \<Rightarrow> string) \<Rightarrow> record_dict \<Rightarrow> pyerr + (string \<times> cell) list" where
  "features_of frepr data =
     bind (get_float data ''amount'') (\<lambda>amount.
     bind (get_int data ''days_overdue'') (\<lambda>days_overdue.
     bind (get_float data ''payment_history_score'') (\<lambda>payment_history.
     bind (get_float data ''shipment_volume_change_30d'') (\<lambda>shipment_change.
     bind (get_int data ''shipment_volume_30d'') (\<lambda>shipment_volume.
     bind (get_float data ''express_ratio'') (\<lambda>express_ratio.
     bind (get_int data ''destination_diversity'') (\<lambda>destination_div.
     bind (get_int data ''contact_attempts'') (\<lambda>contact_attempts.
     bind (get_int data ''customer_tenure_months'') (\<lambda>customer_tenure.
       let email_opened = bool_feature data ''email_opened'';
           dispute_flag = bool_feature data ''dispute_flag'';
           industry_raw = py_str frepr (dict_get data ''industry'' (PStr ''Other''));
           region = py_str frepr (dict_get data ''region'' (PStr ''Other''));
           industry = normalize_industry industry_raw
       in Inr (synthesize amount days_overdue payment_history shipment_change
             shipment_volume express_ratio destination_div contact_attempts customer_tenure
             email_opened dispute_flag industry region))))))))))"

text \<open>\<^verbatim>\<open>prepare_features\<close>: the frame of the features, aligned with the artifact.\<close>

definition prepare_features ::
  "(real \<Rightarrow> string) \<Rightarrow> predictor \<Rightarrow> record_dict \<Rightarrow> pyerr + dataframe" where
  "prepare_features frepr self data =
     bind (features_of frepr data) (\<lambda>features.
       align (feature_names self) (DataFrame features))"

section \<open>The prediction pipeline\<close>

record dca =
  name :: string
  specialization :: string
  reasoning :: string

record factor =
  feature :: string
  impact :: pyfloat
  direction :: string

record prediction =
  account_id :: string
  company_name :: string
  recovery_probability :: pyfloat
  recovery_percentage :: pyfloat
  expected_days :: int
  recovery_velocity_score :: pyfloat
  risk_level :: string
  recommended_dca :: dca
  top_factors :: "factor list"
  prediction_timestamp :: string

text \<open>The fixed result of the demonstration account; \<open>now\<close> is the clock reading.\<close>

definition hero_result :: "string \<Rightarrow> string \<Rightarrow> prediction" where
  "hero_result company now =
     \<lparr>account_id = ''ACC0001'',
      company_name = company,
      recovery_probability = Fin 0.9250,
      recovery_percentage = Fin 0.9250,
      expected_days = 25,
      recovery_velocity_score = Fin 3.7,
      risk_level = ''Low'',
      recommended_dca =
        \<lparr>name = ''In-House Retention Team'',
         specialization = ''Customer Loyalty'',
         reasoning =
           ''High value customer with excellent history. Gentle nudge recommended.''\<rparr>,
      top_factors =
        [\<lparr>feature = ''payment_history_score'', impact = Fin 0.95, direction = ''positive''\<rparr>,
         \<lparr>feature = ''shipment_volume_change_30d'', impact = Fin 0.40,
          direction = ''positive''\<rparr>,
         \<lparr>feature = ''days_overdue'', impact = Fin 0.10, direction = ''neutral''\<rparr>],
      prediction_timestamp = now\<rparr>"

text \<open>Lines 207 to 214: \<^verbatim>\<open>int(base + (1 - prob) * slope)\<close> in the first bucket that matches.\<close>

definition days_formula :: "real \<Rightarrow> real \<Rightarrow> pyfloat \<Rightarrow> pyerr + int" where
  "days_formula base slope prob =
     int_of_float (fadd (Fin base) (fmul (fsub (Fin 1) prob) (Fin slope)))"

definition expected_days_of :: "pyfloat \<Rightarrow> pyerr + int" where
  "expected_days_of prob =
     (if fgt prob (Fin 0.8) then days_formula 30 50 prob
      else if fgt prob (Fin 0.6) then days_formula 45 60 prob
      else if fgt prob (Fin 0.4) then days_formula 60 80 prob
      else days_formula 90 90 prob)"

definition risk_level_of :: "pyfloat \<Rightarrow> string" where
  "risk_level_of prob =
     (if fgt prob (Fin 0.8) then ''Low''
      else if fgt prob (Fin 0.6) then ''Medium''
      else if fgt prob (Fin 0.4) then ''High''
      else ''Very High'')"

definition premium_dca :: dca where
  "premium_dca =
     \<lparr>name = ''Premium Recovery Services'',
      specialization = ''High-value accounts'',
      reasoning = ''Excellent payment history and strong business indicators''\<rparr>"

definition standard_dca :: dca where
  "standard_dca =
     \<lparr>name = ''Standard Recovery Partners'',
      specialization = ''General collections'',
      reasoning = ''Reliable performance across all account types''\<rparr>"

definition specialist_dca :: dca where
  "specialist_dca =
     \<lparr>name = ''Recovery Specialists Inc'',
      specialization = ''Challenging cases'',
      reasoning = ''Experienced in difficult recovery scenarios with legal support''\<rparr>"

definition dca_of :: "pyfloat \<Rightarrow> dca" where
  "dca_of prob =
     (if fgt prob (Fin 0.8) then premium_dca
      else if fgt prob (Fin 0.6) then standard_dca
      else specialist_dca)"

text \<open>Lines 249 to 268. \<^verbatim>\<open>float(original_days)\<close> raises for a number of days beyond the range
  of a double.\<close>

definition factors_of :: "pyfloat \<Rightarrow> pyfloat \<Rightarrow> int \<Rightarrow> pyerr + factor list" where
  "factors_of original_history original_shipment original_days =
     bind (float_of_int original_days) (\<lambda>days_float.
     bind (fdiv days_float (Fin 180)) (\<lambda>quotient.
       let days_impact = fmin quotient (Fin 1)
       in Inr
         [\<lparr>feature = ''payment_history_score'', impact = original_history,
           direction = (if fgt original_history (Fin 0.5) then ''positive'' else ''neutral'')\<rparr>,
          \<lparr>feature = ''shipment_volume_change_30d'', impact = fabs original_shipment,
           direction = (if fgt original_shipment (Fin 0) then ''positive'' else ''negative'')\<rparr>,
          \<lparr>feature = ''days_overdue'', impact = days_impact,
           direction = (if original_days < 60 then ''neutral'' else ''negative'')\<rparr>]))"

text \<open>Lines 204 to 283: everything that is computed from the probability, in the order of
  the source. The division of line 216 converts the integer \<^verbatim>\<open>max(expected_days, 1)\<close> to a
  float.\<close>

definition derive ::
  "string \<Rightarrow> string \<Rightarrow> string \<Rightarrow> pyfloat \<Rightarrow> pyfloat \<Rightarrow> pyfloat \<Rightarrow> int
     \<Rightarrow> pyerr + prediction" where
  "derive acct company now prob original_history original_shipment original_days =
     bind (expected_days_of prob) (\<lambda>days.
     bind (float_of_int (max days 1)) (\<lambda>divisor.
     bind (fdiv (fmul prob (Fin 100)) divisor) (\<lambda>velocity.
     bind (factors_of original_history original_shipment original_days) (\<lambda>factors.
       Inr \<lparr>account_id = acct,
            company_name = company,
            recovery_probability = prob,
            recovery_percentage = prob,
            expected_days = days,
            recovery_velocity_score = fround2 velocity,
            risk_level = risk_level_of prob,
            recommended_dca = dca_of prob,
            top_factors = factors,
            prediction_timestamp = now\<rparr>))))"

text \<open>The body of the \<^verbatim>\<open>try\<close> block: the model must be loaded, the features are prepared,
  the classifier is asked.\<close>

definition inference :: "(real \<Rightarrow> string) \<Rightarrow> predictor \<Rightarrow> record_dict \<Rightarrow> pyerr + pyfloat" where
  "inference frepr self data =
     (case model self of
        None \<Rightarrow> Inl ValueError
      | Some m \<Rightarrow> bind (prepare_features frepr self data) m)"

text \<open>The \<^verbatim>\<open>except Exception\<close> handler: the value of \<^verbatim>\<open>prob\<close> when the body has raised.\<close>

definition fallback :: "pyfloat \<Rightarrow> pyfloat" where
  "fallback original_history =
     (if fgt original_history (Fin 0) then original_history else Fin 0.5)"

definition probability :: "(real \<Rightarrow> string) \<Rightarrow> predictor \<Rightarrow> record_dict \<Rightarrow> pyfloat \<Rightarrow> pyfloat" where
  "probability frepr self data original_history =
     (case inference frepr self data of
        Inl e \<Rightarrow> fallback original_history
      | Inr prob \<Rightarrow> prob)"

definition predict_recovery ::
  "(real \<Rightarrow> string) \<Rightarrow> string \<Rightarrow> predictor \<Rightarrow> record_dict \<Rightarrow> pyerr + prediction" where
  "predict_recovery frepr now self data =
     (let acct = py_str frepr (dict_get data ''account_id'' (PStr ''Unknown''));
          company = py_str frepr (dict_get data ''company_name'' (PStr ''Unknown Company''))
      in if acct = ''ACC0001'' then Inr (hero_result company now)
         else
           bind (get_float data ''amount'') (\<lambda>original_amount.
           bind (get_int data ''days_overdue'') (\<lambda>original_days.
           bind (get_float data ''payment_history_score'') (\<lambda>original_history.
           bind (get_float data ''shipment_volume_change_30d'') (\<lambda>original_shipment.
             derive acct company now (probability frepr self data original_history)
               original_history original_shipment original_days)))))"

section \<open>The batch analysis\<close>

text \<open>
  \<^verbatim>\<open>analyze_csv\<close> in \<^verbatim>\<open>main.py\<close>, from the parsed file on: the columns of the frame and its
  rows, each row as the dictionary \<^verbatim>\<open>row.to_dict()\<close>. The account store is a dictionary
  keyed by the raw account identifier; the clock is read once for each prediction, \<open>clock i\<close>
  being its reading at the row of index \<open>i\<close>.
\<close>

record analysed = prediction +
  amount :: pyfloat
  days_overdue :: int













section \<open>The explanation engine\<close>

text \<open>
  \<^verbatim>\<open>shap_explainer.py\<close>. The SHAP explainer and the classifier are opaque. The explainer
  returns an array of attributions, with one or two axes, or a list of such arrays, or
  raises. Of the classifier the fallback uses its \<^verbatim>\<open>feature_importances_\<close> when it has this
  attribute, else its \<^verbatim>\<open>get_score\<close> when it has this method, else nothing.
\<close>

datatype ndarray = Array1 "pyfloat list" | Array2 "pyfloat list list"

datatype shap_output = ArrayList "ndarray list" | SingleArray ndarray

datatype expected = ExpectedList "pyfloat list" | ExpectedScalar pyfloat | ExpectedUnavailable

datatype importance_source =
    FeatureImportances "pyerr + pyfloat list"
  | GetScore "pyerr + (string \<rightharpoonup> pyfloat)"
  | NoImportances

record engine =
  importance_source :: importance_source
  explainer :: "(dataframe \<Rightarrow> pyerr + shap_output) option"
  expected_value :: expected

datatype fvalue = FloatValue pyfloat | StrValue string

record explained_factor = factor +
  feature_value :: fvalue

record explanation =
  top_factors :: "explained_factor list"
  base_value :: "pyfloat option"
  method_name :: "string option"

subsection \<open>Names for display\<close>

definition name_map :: "(string \<times> string) list" where
  "name_map =
     [(''amount_log'', ''Invoice Amount (log)''),
      (''amount'', ''Invoice Amount''),
      (''days_overdue'', ''Days Overdue''),
      (''payment_history_score'', ''Payment History Score''),
      (''shipment_volume_change_30d'', ''Shipment Volume Change (30d)''),
      (''shipment_volume_30d'', ''Shipment Volume (30d)''),
      (''express_ratio'', ''Express Shipment Ratio''),
      (''destination_diversity'', ''Shipping Destination Diversity''),
      (''email_opened'', ''Email Engagement''),
      (''dispute_flag'', ''Dispute History'')]"

text \<open>\<^verbatim>\<open>s.title()\<close>: a letter is upper case after a character that is not a letter, lower case
  after a letter.\<close>

fun title_from :: "bool \<Rightarrow> string \<Rightarrow> string" where
  "title_from previous_is_cased [] = []"
| "title_from previous_is_cased (c # cs) =
     (if is_lower c then (if previous_is_cased then c else to_upper c) # title_from True cs
      else if is_upper c then (if previous_is_cased then to_lower c else c) # title_from True cs
      else c # title_from False cs)"

definition title :: "string \<Rightarrow> string" where
  "title s = title_from False s"

definition clean_feature_name :: "string \<Rightarrow> string" where
  "clean_feature_name fname =
     (case map_of name_map fname of
        Some display \<Rightarrow> display
      | None \<Rightarrow>
          let category = takeWhile (\<lambda>c. c \<noteq> CHR ''_'') fname;
              rest = dropWhile (\<lambda>c. c \<noteq> CHR ''_'') fname
          in if rest \<noteq> [] \<and> category \<in> set [''industry'', ''region'']
             then title category @ '': '' @ tl rest
             else title (map (\<lambda>c. if c = CHR ''_'' then CHR '' '' else c) fname))"

subsection \<open>Factors\<close>

text \<open>The cell \<^verbatim>\<open>X_df.iloc[0, i]\<close> of the first row, and what the factor reports of it: a
  numpy float is a Python float, a numpy integer is not a Python \<^verbatim>\<open>int\<close> and is printed.\<close>

definition first_row :: "dataframe \<Rightarrow> cell list" where
  "first_row df = (case rows df of [] \<Rightarrow> [] | r # _ \<Rightarrow> r)"

fun value_of_cell :: "cell \<Rightarrow> fvalue" where
  "value_of_cell (CFloat f) = FloatValue f"
| "value_of_cell (CInt i) = StrValue (str_of_int i)"

fun cell_float :: "cell \<Rightarrow> pyfloat" where
  "cell_float (CFloat f) = f"
| "cell_float (CInt i) = Fin (of_int i)"

definition negligible :: "pyfloat \<Rightarrow> bool" where
  "negligible v = flt (fabs v) (Fin (1 / 10 ^ 10))"

text \<open>\<^verbatim>\<open>feature_importance.sort(key=lambda x: abs(x['impact']), reverse=True)\<close>: a stable
  sort into descending order of the key. It is written as an insertion sort with Python's
  \<^verbatim>\<open><\<close> on floats; for keys without NaN every stable sort gives this list, and with a NaN
  among the keys Python promises no particular order.\<close>

fun insort_desc :: "explained_factor \<Rightarrow> explained_factor list \<Rightarrow> explained_factor list" where
  "insort_desc x [] = [x]"
| "insort_desc x (y # ys) =
     (if flt (fabs (impact x)) (fabs (impact y)) then y # insort_desc x ys else x # y # ys)"

definition sort_desc :: "explained_factor list \<Rightarrow> explained_factor list" where
  "sort_desc fs = foldr insort_desc fs []"

text \<open>The loop of lines 183 to 196 over \<^verbatim>\<open>zip(feature_names, vals)\<close>.\<close>

definition shap_factor :: "string \<Rightarrow> pyfloat \<Rightarrow> cell \<Rightarrow> explained_factor" where
  "shap_factor fname val c =
     \<lparr>feature = clean_feature_name fname, impact = val,
      direction = (if fgt val (Fin 0) then ''positive'' else ''negative''),
      feature_value = value_of_cell c\<rparr>"

definition shap_importance :: "dataframe \<Rightarrow> pyfloat list \<Rightarrow> explained_factor list" where
  "shap_importance df vals =
     map (\<lambda>(fname, val, c). shap_factor fname val c)
       (filter (\<lambda>(fname, val, c). \<not> negligible val)
          (zip (columns df) (zip vals (first_row df))))"

text \<open>Lines 160 to 177: the attributions of the positive class for the first row.\<close>

definition select_class :: "shap_output \<Rightarrow> pyerr + ndarray" where
  "select_class shap_values =
     (case shap_values of
        ArrayList l \<Rightarrow>
          if length l = 2 then Inr (l ! 1)
          else (case l of [] \<Rightarrow> Inl IndexError | a # _ \<Rightarrow> Inr a)
      | SingleArray a \<Rightarrow> Inr a)"

definition single_prediction :: "ndarray \<Rightarrow> pyerr + pyfloat list" where
  "single_prediction vals =
     (case vals of
        Array1 v \<Rightarrow> Inr v
      | Array2 m \<Rightarrow> (case m of [] \<Rightarrow> Inl IndexError | v # _ \<Rightarrow> Inr v))"

definition base_value_of :: "expected \<Rightarrow> pyfloat" where
  "base_value_of ev =
     (case ev of
        ExpectedList l \<Rightarrow> if l = [] then Fin 0.5 else last l
      | ExpectedScalar v \<Rightarrow> v
      | ExpectedUnavailable \<Rightarrow> Fin 0.5)"

subsection \<open>The fallback\<close>

definition importances_of :: "engine \<Rightarrow> dataframe \<Rightarrow> pyerr + pyfloat list" where
  "importances_of self df =
     (case importance_source self of
        FeatureImportances r \<Rightarrow> r
      | GetScore r \<Rightarrow>
          bind r (\<lambda>importance_dict.
            Inr (map (\<lambda>f. case importance_dict f of None \<Rightarrow> Fin 0 | Some v \<Rightarrow> v) (columns df)))
      | NoImportances \<Rightarrow> Inr (map (\<lambda>c. fabs (cell_float c)) (first_row df)))"

definition fallback_factor :: "string \<Rightarrow> pyfloat \<Rightarrow> cell \<Rightarrow> explained_factor" where
  "fallback_factor fname imp c =
     \<lparr>feature = clean_feature_name fname, impact = imp,
      direction = (if fgt (cell_float c) (Fin 0) then ''positive'' else ''neutral''),
      feature_value = value_of_cell c\<rparr>"

definition fallback_importance :: "dataframe \<Rightarrow> pyfloat list \<Rightarrow> explained_factor list" where
  "fallback_importance df importances =
     map (\<lambda>(fname, imp, c). fallback_factor fname imp c)
       (filter (\<lambda>(fname, imp, c). \<not> negligible imp)
          (zip (columns df) (zip importances (first_row df))))"

definition no_explanation :: explanation where
  "no_explanation = \<lparr>top_factors = [], base_value = None, method_name = None\<rparr>"

definition fallback_explanation :: "engine \<Rightarrow> dataframe \<Rightarrow> explanation" where
  "fallback_explanation self X_df =
     (case importances_of self X_df of
        Inl e \<Rightarrow> no_explanation
      | Inr importances \<Rightarrow>
          \<lparr>top_factors = take 5 (sort_desc (fallback_importance X_df importances)),
           base_value = Some (Fin 0.5),
           method_name = Some ''feature_importance_fallback''\<rparr>)"

subsection \<open>\<^verbatim>\<open>explain_prediction\<close>\<close>

definition empty :: "dataframe \<Rightarrow> bool" where
  "empty df = (columns df = [] \<or> rows df = [])"

definition explain_prediction :: "engine \<Rightarrow> dataframe option \<Rightarrow> explanation" where
  "explain_prediction self X_df =
     (case X_df of
        None \<Rightarrow> no_explanation
      | Some df \<Rightarrow>
          if empty df then no_explanation
          else case explainer self of
                 None \<Rightarrow> fallback_explanation self df
               | Some shap_values \<Rightarrow>
                   (case bind (bind (shap_values df) select_class) single_prediction of
                      Inl e \<Rightarrow> fallback_explanation self df
                    | Inr vals \<Rightarrow>
                        \<lparr>top_factors = take 5 (sort_desc (shap_importance df vals)),
                         base_value = Some (base_value_of (expected_value self)),
                         method_name = None\<rparr>))"

text \<open>The list \<^verbatim>\<open>feature_importance\<close> of whichever path runs, as it is before the sort.\<close>

definition feature_importance :: "engine \<Rightarrow> dataframe \<Rightarrow> explained_factor list" where
  "feature_importance self df =
     (let fallback_list =
            (case importances_of self df of
               Inl e \<Rightarrow> []
             | Inr importances \<Rightarrow> fallback_importance df importances)
      in case explainer self of
           None \<Rightarrow> fallback_list
         | Some shap_values \<Rightarrow>
             (case bind (bind (shap_values df) select_class) single_prediction of
                Inl e \<Rightarrow> fallback_list
              | Inr vals \<Rightarrow> shap_importance df vals))"

section \<open>Properties of the float model\<close>

text \<open>Values of a magnitude up to a million are far inside the range of a double.\<close>

lemma overflow_bound_large: "10 ^ 6 < overflow_bound"
  by (simp add: overflow_bound_def)

lemma overflow_bound_pos [simp]: "0 < overflow_bound"
  using overflow_bound_large by simp

lemma in_range [simp]: "\<bar>x\<bar> \<le> 10 ^ 6 \<Longrightarrow> \<bar>x\<bar> < overflow_bound"
  using overflow_bound_large by simp


lemma overflow_in_range: "\<bar>x\<bar> < overflow_bound \<Longrightarrow> overflow x = Fin x"
  by (simp add: overflow_def)

lemma overflow_small [simp]: "\<bar>x\<bar> \<le> 10 ^ 6 \<Longrightarrow> overflow x = Fin x"
  by (simp add: overflow_def)

lemma float_of_int_small [simp]:
  "\<bar>real_of_int n\<bar> \<le> 10 ^ 6 \<Longrightarrow> float_of_int n = Inr (Fin (real_of_int n))"
  by (simp add: float_of_int_def)

section \<open>Properties of the derived metrics\<close>

text \<open>
  For a probability in \<open>[0, 1]\<close> the float arithmetic of the day formula is ordinary real
  arithmetic, far from the range of a double, and \<^verbatim>\<open>int\<close> is the floor, since the value is
  not negative.
\<close>

lemma days_formula_Fin:
  assumes "0 \<le> p" and "p \<le> 1"
    and "0 \<le> base" and "base \<le> 100" and "0 \<le> slope" and "slope \<le> 100"
  shows "days_formula base slope (Fin p) = Inr \<lfloor>base + (1 - p) * slope\<rfloor>"
proof -
  have a: "\<bar>1 - p\<bar> \<le> 10 ^ 6" using assms by simp
  have "0 \<le> (1 - p) * slope" using assms by simp
  moreover have "(1 - p) * slope \<le> 1 * 100"
    using assms by (intro mult_mono) simp_all
  ultimately have b: "\<bar>(1 - p) * slope\<bar> \<le> 10 ^ 6"
    and c: "\<bar>base + (1 - p) * slope\<bar> \<le> 10 ^ 6"
    and d: "0 \<le> base + (1 - p) * slope"
    using assms by simp_all
  show ?thesis
    using a b c d by (simp add: days_formula_def fsub_def trunc_def)
qed

lemma expected_days_Fin:
  assumes "0 \<le> p" and "p \<le> 1"
  shows "expected_days_of (Fin p) =
     Inr (if 0.8 < p then \<lfloor>30 + (1 - p) * 50\<rfloor>
          else if 0.6 < p then \<lfloor>45 + (1 - p) * 60\<rfloor>
          else if 0.4 < p then \<lfloor>60 + (1 - p) * 80\<rfloor>
          else \<lfloor>90 + (1 - p) * 90\<rfloor>)"
  using assms by (simp add: expected_days_of_def fgt_def days_formula_Fin)

lemma low_range:
  fixes p :: real
  shows "0.8 < p \<Longrightarrow> p \<le> 1 \<Longrightarrow>
    30 \<le> \<lfloor>30 + (1 - p) * 50\<rfloor> \<and> \<lfloor>30 + (1 - p) * 50\<rfloor> \<le> 39"
  by (simp add: le_floor_iff floor_le_iff)

lemma medium_range:
  fixes p :: real
  shows "0.6 < p \<Longrightarrow> p \<le> 0.8 \<Longrightarrow>
    57 \<le> \<lfloor>45 + (1 - p) * 60\<rfloor> \<and> \<lfloor>45 + (1 - p) * 60\<rfloor> \<le> 68"
  by (simp add: le_floor_iff floor_le_iff)

lemma high_range:
  fixes p :: real
  shows "0.4 < p \<Longrightarrow> p \<le> 0.6 \<Longrightarrow>
    92 \<le> \<lfloor>60 + (1 - p) * 80\<rfloor> \<and> \<lfloor>60 + (1 - p) * 80\<rfloor> \<le> 107"
  by (simp add: le_floor_iff floor_le_iff)

lemma very_high_range:
  fixes p :: real
  shows "0 \<le> p \<Longrightarrow> p \<le> 0.4 \<Longrightarrow>
    144 \<le> \<lfloor>90 + (1 - p) * 90\<rfloor> \<and> \<lfloor>90 + (1 - p) * 90\<rfloor> \<le> 180"
  by (simp add: le_floor_iff floor_le_iff)

lemma risk_level_Fin:
  "risk_level_of (Fin p) =
     (if 0.8 < p then ''Low'' else if 0.6 < p then ''Medium''
      else if 0.4 < p then ''High'' else ''Very High'')"
  by (simp add: risk_level_of_def fgt_def)

text \<open>
  C3. For every probability \<open>p\<close> in \<open>[0, 1]\<close> the risk level is decided by the range \<open>p\<close>
  lies in, and the four ranges \<open>p > 0.8\<close>, \<open>0.6 < p \<le> 0.8\<close>, \<open>0.4 < p \<le> 0.6\<close>, \<open>p \<le> 0.4\<close>
  are exactly the cases Low, Medium, High and Very High of the first-match chain; in each
  range the expected days are the floor of that range's formula; and the expected days lie
  in \<open>[1, 180]\<close>.
\<close>

theorem buckets_and_expected_days:
  assumes "0 \<le> p" and "p \<le> 1"
  shows "(risk_level_of (Fin p) = ''Low'' \<longleftrightarrow> 0.8 < p)
       \<and> (risk_level_of (Fin p) = ''Medium'' \<longleftrightarrow> 0.6 < p \<and> p \<le> 0.8)
       \<and> (risk_level_of (Fin p) = ''High'' \<longleftrightarrow> 0.4 < p \<and> p \<le> 0.6)
       \<and> (risk_level_of (Fin p) = ''Very High'' \<longleftrightarrow> p \<le> 0.4)
       \<and> (0.8 < p \<longrightarrow> expected_days_of (Fin p) = Inr \<lfloor>30 + (1 - p) * 50\<rfloor>)
       \<and> (0.6 < p \<and> p \<le> 0.8 \<longrightarrow> expected_days_of (Fin p) = Inr \<lfloor>45 + (1 - p) * 60\<rfloor>)
       \<and> (0.4 < p \<and> p \<le> 0.6 \<longrightarrow> expected_days_of (Fin p) = Inr \<lfloor>60 + (1 - p) * 80\<rfloor>)
       \<and> (p \<le> 0.4 \<longrightarrow> expected_days_of (Fin p) = Inr \<lfloor>90 + (1 - p) * 90\<rfloor>)
       \<and> (\<exists>d. expected_days_of (Fin p) = Inr d \<and> 1 \<le> d \<and> d \<le> 180)"
proof -
  have levels: "(risk_level_of (Fin p) = ''Low'' \<longleftrightarrow> 0.8 < p)
       \<and> (risk_level_of (Fin p) = ''Medium'' \<longleftrightarrow> 0.6 < p \<and> p \<le> 0.8)
       \<and> (risk_level_of (Fin p) = ''High'' \<longleftrightarrow> 0.4 < p \<and> p \<le> 0.6)
       \<and> (risk_level_of (Fin p) = ''Very High'' \<longleftrightarrow> p \<le> 0.4)"
    by (simp add: risk_level_Fin)
  have days: "(0.8 < p \<longrightarrow> expected_days_of (Fin p) = Inr \<lfloor>30 + (1 - p) * 50\<rfloor>)
       \<and> (0.6 < p \<and> p \<le> 0.8 \<longrightarrow> expected_days_of (Fin p) = Inr \<lfloor>45 + (1 - p) * 60\<rfloor>)
       \<and> (0.4 < p \<and> p \<le> 0.6 \<longrightarrow> expected_days_of (Fin p) = Inr \<lfloor>60 + (1 - p) * 80\<rfloor>)
       \<and> (p \<le> 0.4 \<longrightarrow> expected_days_of (Fin p) = Inr \<lfloor>90 + (1 - p) * 90\<rfloor>)"
    using assms by (simp add: expected_days_Fin)
  have range: "\<exists>d. expected_days_of (Fin p) = Inr d \<and> 1 \<le> d \<and> d \<le> 180"
  proof -
    consider "0.8 < p" | "0.6 < p" "p \<le> 0.8" | "0.4 < p" "p \<le> 0.6" | "p \<le> 0.4"
      by linarith
    then show ?thesis
    proof cases
      case 1
      with low_range [of p] assms show ?thesis by (simp add: expected_days_Fin)
    next
      case 2
      with medium_range [of p] assms show ?thesis by (simp add: expected_days_Fin)
    next
      case 3
      with high_range [of p] assms show ?thesis by (simp add: expected_days_Fin)
    next
      case 4
      with very_high_range [of p] assms show ?thesis by (simp add: expected_days_Fin)
    qed
  qed
  from levels days range show ?thesis by blast
qed

theorem buckets_and_expected_days_witness:
  "risk_level_of (Fin 0.9) = ''Low'' \<and> expected_days_of (Fin 0.9) = Inr 35
   \<and> risk_level_of (Fin 0.7) = ''Medium'' \<and> expected_days_of (Fin 0.7) = Inr 63
   \<and> risk_level_of (Fin 0.5) = ''High'' \<and> expected_days_of (Fin 0.5) = Inr 100
   \<and> risk_level_of (Fin 0.25) = ''Very High'' \<and> expected_days_of (Fin 0.25) = Inr 157"
  using buckets_and_expected_days [of "0.9"] buckets_and_expected_days [of "0.7"]
    buckets_and_expected_days [of "0.5"] buckets_and_expected_days [of "0.25"]
  by simp

text \<open>
  C10. The expected days never increase with the probability: for \<open>p1 \<le> p2\<close> in \<open>[0, 1]\<close>
  the days computed for \<open>p2\<close> are at most the days computed for \<open>p1\<close>, also when the two
  probabilities lie in different buckets.
\<close>

theorem expected_days_antimono:
  assumes "0 \<le> p1" and "p1 \<le> p2" and "p2 \<le> 1"
  shows "\<exists>d1 d2. expected_days_of (Fin p1) = Inr d1 \<and> expected_days_of (Fin p2) = Inr d2
           \<and> d2 \<le> d1"
proof -
  define days :: "real \<Rightarrow> int" where
    "days p = (if 0.8 < p then \<lfloor>30 + (1 - p) * 50\<rfloor>
          else if 0.6 < p then \<lfloor>45 + (1 - p) * 60\<rfloor>
          else if 0.4 < p then \<lfloor>60 + (1 - p) * 80\<rfloor>
          else \<lfloor>90 + (1 - p) * 90\<rfloor>)" for p
  have e1: "expected_days_of (Fin p1) = Inr (days p1)"
    using assms by (simp add: expected_days_Fin days_def)
  have e2: "expected_days_of (Fin p2) = Inr (days p2)"
    using assms by (simp add: expected_days_Fin days_def)
  have same: "\<lfloor>b + (1 - p2) * s\<rfloor> \<le> \<lfloor>b + (1 - p1) * s\<rfloor>" if "0 \<le> s" for b s :: real
    using that \<open>p1 \<le> p2\<close> by (intro floor_mono add_left_mono mult_right_mono) simp_all
  have low: "30 \<le> days q \<and> days q \<le> 39" if "0.8 < q" "q \<le> 1" for q
    using low_range [OF that] that by (simp only: days_def if_True)
  have medium: "57 \<le> days q \<and> days q \<le> 68" if "0.6 < q" "q \<le> 0.8" for q
  proof -
    from that have "days q = \<lfloor>45 + (1 - q) * 60\<rfloor>" by (simp add: days_def)
    with medium_range [OF that] show ?thesis by (simp only:)
  qed
  have high: "92 \<le> days q \<and> days q \<le> 107" if "0.4 < q" "q \<le> 0.6" for q
  proof -
    from that have "days q = \<lfloor>60 + (1 - q) * 80\<rfloor>" by (simp add: days_def)
    with high_range [OF that] show ?thesis by (simp only:)
  qed
  have very_high: "144 \<le> days q \<and> days q \<le> 180" if "0 \<le> q" "q \<le> 0.4" for q
  proof -
    from that have "days q = \<lfloor>90 + (1 - q) * 90\<rfloor>" by (simp add: days_def)
    with very_high_range [OF that] show ?thesis by (simp only:)
  qed
  have "days p2 \<le> days p1"
  proof -
    consider "0.8 < p1" | "0.6 < p1" "p1 \<le> 0.8" | "0.4 < p1" "p1 \<le> 0.6" | "p1 \<le> 0.4"
      by linarith
    then show ?thesis
    proof cases
      case 1
      with assms same [of 50 30] show ?thesis by (simp add: days_def)
    next
      case 2
      show ?thesis
      proof (cases "0.8 < p2")
        case True
        from low [OF True \<open>p2 \<le> 1\<close>] medium [OF 2] show ?thesis by linarith
      next
        case False
        with 2 assms same [of 60 45] show ?thesis by (simp add: days_def)
      qed
    next
      case 3
      consider "0.8 < p2" | "0.6 < p2" "p2 \<le> 0.8" | "p2 \<le> 0.6" by linarith
      then show ?thesis
      proof cases
        case 1
        from low [OF 1 \<open>p2 \<le> 1\<close>] high [OF 3] show ?thesis by linarith
      next
        case 2
        from medium [OF 2] high [OF 3] show ?thesis by linarith
      next
        case 3
        with \<open>0.4 < p1\<close> assms same [of 80 60] show ?thesis by (simp add: days_def)
      qed
    next
      case 4
      note vh = very_high [OF \<open>0 \<le> p1\<close> 4]
      consider "0.8 < p2" | "0.6 < p2" "p2 \<le> 0.8" | "0.4 < p2" "p2 \<le> 0.6" | "p2 \<le> 0.4"
        by linarith
      then show ?thesis
      proof cases
        case 1
        from low [OF 1 \<open>p2 \<le> 1\<close>] vh show ?thesis by linarith
      next
        case 2
        from medium [OF 2] vh show ?thesis by linarith
      next
        case 3
        from high [OF 3] vh show ?thesis by linarith
      next
        case 4
        with assms same [of 90 90] show ?thesis by (simp add: days_def)
      qed
    qed
  qed
  with e1 e2 show ?thesis by simp
qed

theorem expected_days_antimono_witness:
  "expected_days_of (Fin 0.8) = Inr 57 \<and> expected_days_of (Fin 0.81) = Inr 39
   \<and> (39 :: int) \<le> 57"
  using expected_days_antimono [of "0.8" "0.81"]
  by (simp add: expected_days_Fin)

section \<open>Properties of the feature encoder\<close>

text \<open>Adding the missing columns one by one gives the frame of the extended dictionary.\<close>

lemma fold_set_column_new:
  "distinct ms \<Longrightarrow> set ms \<inter> set (map fst fs) = {} \<Longrightarrow>
   fold (\<lambda>feat d. set_column feat c d) ms (DataFrame fs) = DataFrame (fs @ map (\<lambda>m. (m, c)) ms)"
proof (induction ms arbitrary: fs)
  case Nil
  then show ?case by simp
next
  case (Cons m ms)
  have step: "set_column m c (DataFrame fs) = DataFrame (fs @ [(m, c)])"
    using Cons.prems by (simp add: set_column_def DataFrame_def)
  have "set ms \<inter> set (map fst (fs @ [(m, c)])) = {}"
    using Cons.prems by auto
  with Cons.IH [of "fs @ [(m, c)]"] Cons.prems step show ?case by simp
qed

lemma those_map_Some:
  "(\<And>x. x \<in> set xs \<Longrightarrow> f x \<noteq> None) \<Longrightarrow> those (map f xs) = Some (map (\<lambda>x. the (f x)) xs)"
  by (induction xs) (auto split: option.splits)

lemma select_columns_DataFrame:
  assumes "set names \<subseteq> set (map fst gs)"
  shows "select_columns (DataFrame gs) names =
     Inr \<lparr>columns = names, rows = [map (\<lambda>n. the (map_of gs n)) names]\<rparr>"
proof -
  have z: "cell_at (map fst gs) (map snd gs) = map_of gs"
    by (rule ext) (simp add: cell_at_def zip_map_fst_snd)
  have "those (map (map_of gs) names) = Some (map (\<lambda>n. the (map_of gs n)) names)"
  proof (rule those_map_Some)
    fix x assume "x \<in> set names"
    with assms have "x \<in> fst ` set gs" by auto
    then show "map_of gs x \<noteq> None" by (simp add: map_of_eq_None_iff)
  qed
  with assms show ?thesis
    by (simp add: select_columns_def DataFrame_def z)
qed

lemma align_DataFrame:
  assumes "names \<noteq> []"
  shows "align names (DataFrame fs) =
     Inr \<lparr>columns = names,
          rows = [map (\<lambda>n. case map_of fs n of None \<Rightarrow> CInt 0 | Some c \<Rightarrow> c) names]\<rparr>"
proof -
  define ms where "ms = filter (\<lambda>f. f \<notin> set (columns (DataFrame fs))) (remdups names)"
  define gs where "gs = fs @ map (\<lambda>m. (m, CInt 0)) ms"
  have cols: "columns (DataFrame fs) = map fst fs" by (simp add: DataFrame_def)
  have "distinct ms" and "set ms \<inter> set (map fst fs) = {}"
    by (auto simp: ms_def cols)
  then have f: "fold (\<lambda>feat d. set_column feat (CInt 0) d) ms (DataFrame fs) = DataFrame gs"
    unfolding gs_def by (rule fold_set_column_new)
  have sub: "set names \<subseteq> set (map fst gs)"
    by (auto simp: gs_def ms_def cols image_iff) 
  have val: "the (map_of gs n) = (case map_of fs n of None \<Rightarrow> CInt 0 | Some c \<Rightarrow> c)"
    if "n \<in> set names" for n
  proof (cases "map_of fs n")
    case None
    then have "n \<notin> fst ` set fs" by (simp add: map_of_eq_None_iff)
    with that have "n \<in> set ms" by (simp add: ms_def cols)
    then have "map_of (map (\<lambda>m. (m, CInt 0)) ms) n = Some (CInt 0)"
      by (induction ms) auto
    with None show ?thesis by (simp add: gs_def map_add_def)
  next
    case (Some c)
    then show ?thesis by (simp add: gs_def map_add_def)
  qed
  have "align names (DataFrame fs) = select_columns (DataFrame gs) names"
    using assms f by (simp add: align_def ms_def Let_def)
  also have "\<dots> = Inr \<lparr>columns = names, rows = [map (\<lambda>n. the (map_of gs n)) names]\<rparr>"
    using sub by (rule select_columns_DataFrame)
  also have "map (\<lambda>n. the (map_of gs n)) names =
      map (\<lambda>n. case map_of fs n of None \<Rightarrow> CInt 0 | Some c \<Rightarrow> c) names"
    using val by simp
  finally show ?thesis .
qed

text \<open>The alignment never raises: \<^verbatim>\<open>prepare_features\<close> raises exactly when one of the nine
  coercions does, with the same exception.\<close>

lemma prepare_features_raises:
  "prepare_features frepr self data = Inl e \<longleftrightarrow> features_of frepr data = Inl e"
proof (cases "features_of frepr data")
  case (Inl e')
  then show ?thesis by (simp add: prepare_features_def bind_def)
next
  case (Inr fs)
  then show ?thesis
    by (cases "feature_names self = []")
      (simp_all add: prepare_features_def bind_def align_DataFrame, simp add: align_def)
qed

text \<open>The definitions that evaluate the coercions and the encoder on a given record.\<close>

lemmas coerce_defs = get_float_def get_int_def dict_get_def py_or_def bind_def

lemmas encoder_defs = features_of_def bool_feature_def normalize_industry_def Let_def

text \<open>
  C1. When the artifact declares feature names, the frame returned by \<^verbatim>\<open>prepare_features\<close>
  has exactly these columns in this order, whatever the record: a declared column that the
  encoder has synthesized keeps its value, a declared column that it has not is the
  constant 0, and a synthesized column that is not declared is gone. The encoder raises only
  when the coercion of a numeric field does, before any column exists.
\<close>

theorem prepare_features_aligned:
  assumes "feature_names self \<noteq> []"
    and "features_of frepr data = Inr features"
  shows "prepare_features frepr self data =
     Inr \<lparr>columns = feature_names self,
          rows = [map (\<lambda>n. case map_of features n of None \<Rightarrow> CInt 0 | Some c \<Rightarrow> c)
                    (feature_names self)]\<rparr>"
  using assms by (simp add: prepare_features_def bind_def align_DataFrame)

theorem prepare_features_aligned_witness:
  "prepare_features (\<lambda>x. [])
     \<lparr>model = None, feature_names = [''industry_Tech'', ''unseen'', ''days_overdue'']\<rparr>
     [''industry'' \<mapsto> PStr ''Tech'', ''days_overdue'' \<mapsto> PInt 45] =
   Inr \<lparr>columns = [''industry_Tech'', ''unseen'', ''days_overdue''],
        rows = [[CInt 1, CInt 0, CInt 45]]\<rparr>"
proof -
  let ?self = "\<lparr>model = None, feature_names = [''industry_Tech'', ''unseen'', ''days_overdue'']\<rparr>"
  let ?data = "[''industry'' \<mapsto> PStr ''Tech'', ''days_overdue'' \<mapsto> PInt 45]"
  have names: "feature_names ?self \<noteq> []" by simp
  have fs: "features_of (\<lambda>x. []) ?data =
      Inr (synthesize (Fin 0) 45 (Fin 0) (Fin 0) 0 (Fin 0) 0 0 0 0 0 ''Tech'' ''Other'')"
    by (simp add: coerce_defs encoder_defs)
  show ?thesis
    using prepare_features_aligned [OF names fs] by (simp add: synthesize_def one_hot_def)
qed

text \<open>
  C6, as the code has it. The amount reaches \<^verbatim>\<open>numpy.log1p\<close> as it was coerced: nothing
  rejects a negative amount and nothing clamps it. The column \<^verbatim>\<open>amount_log\<close> is \<open>ln (1 + a)\<close>
  for an amount \<open>a\<close> above \<open>-1\<close>, minus infinity at \<open>-1\<close> and NaN below.
\<close>

theorem amount_log_unclamped:
  assumes "get_float data ''amount'' = Inr (Fin a)"
    and "features_of frepr data = Inr features"
  shows "map_of features ''amount_log'' =
     Some (CFloat (if - 1 < a then Fin (ln (1 + a)) else if a = - 1 then NegInf else NaN))"
  using assms
  by (auto simp: features_of_def bind_def synthesize_def Let_def split: sum.splits)

theorem amount_log_unclamped_witness:
  "map_of (synthesize (Fin 0) 45 (Fin 0) (Fin 0) 0 (Fin 0) 0 0 0 0 0 ''Tech'' ''Other'')
     ''amount_log'' = Some (CFloat (Fin 0))
   \<and> map_of (synthesize (Fin (- 5)) 0 (Fin 0) (Fin 0) 0 (Fin 0) 0 0 0 0 0 ''Other'' ''Other'')
     ''amount_log'' = Some (CFloat NaN)"
proof -
  let ?d1 = "[''industry'' \<mapsto> PStr ''Tech'', ''days_overdue'' \<mapsto> PInt 45]"
  let ?d2 = "[''amount'' \<mapsto> PInt (- 5)]"
  have a1: "get_float ?d1 ''amount'' = Inr (Fin 0)"
    and a2: "get_float ?d2 ''amount'' = Inr (Fin (- 5))"
    by (simp_all add: coerce_defs)
  have f1: "features_of (\<lambda>x. []) ?d1 =
      Inr (synthesize (Fin 0) 45 (Fin 0) (Fin 0) 0 (Fin 0) 0 0 0 0 0 ''Tech'' ''Other'')"
    and f2: "features_of (\<lambda>x. []) ?d2 =
      Inr (synthesize (Fin (- 5)) 0 (Fin 0) (Fin 0) 0 (Fin 0) 0 0 0 0 0 ''Other'' ''Other'')"
    by (simp_all add: coerce_defs encoder_defs)
  show ?thesis
    using amount_log_unclamped [OF a1 f1] amount_log_unclamped [OF a2 f2] by simp
qed

text \<open>
  C6, as the specification states it, fails: the amount \<open>-5\<close> is neither rejected (a frame
  is returned) nor clamped to 0 (the column would be \<open>log1p 0 = 0\<close>); \<^verbatim>\<open>log1p\<close> is evaluated
  outside its domain and the column is NaN.
\<close>

theorem negative_amount_counterexample:
  "prepare_features (\<lambda>x. []) \<lparr>model = None, feature_names = [''amount_log'']\<rparr>
     [''amount'' \<mapsto> PInt (- 5)] =
   Inr \<lparr>columns = [''amount_log''], rows = [[CFloat NaN]]\<rparr>
   \<and> log1p (Fin 0) = Fin 0"
  by (simp add: prepare_features_def align_DataFrame coerce_defs encoder_defs synthesize_def)

text \<open>
  C8. Two records that differ only in the industry, \<^verbatim>\<open>Technology\<close> in one and \<^verbatim>\<open>Tech\<close> in the
  other, are encoded alike: the same features before the alignment, hence the same
  indicator columns, and the same frame after it. Every other industry value is left as it
  is by the normalisation.
\<close>

theorem technology_is_tech:
  "features_of frepr (data(''industry'' \<mapsto> PStr ''Technology'')) =
     features_of frepr (data(''industry'' \<mapsto> PStr ''Tech''))
   \<and> prepare_features frepr self (data(''industry'' \<mapsto> PStr ''Technology'')) =
     prepare_features frepr self (data(''industry'' \<mapsto> PStr ''Tech''))
   \<and> (s \<noteq> ''Technology'' \<longrightarrow> normalize_industry s = s)"
proof -
  have "features_of frepr (data(''industry'' \<mapsto> PStr ''Technology'')) =
     features_of frepr (data(''industry'' \<mapsto> PStr ''Tech''))"
    by (simp add: coerce_defs encoder_defs)
  then show ?thesis
    by (simp add: prepare_features_def normalize_industry_def)
qed

theorem technology_is_tech_witness:
  "prepare_features (\<lambda>x. [])
     \<lparr>model = None, feature_names = [''industry_Tech'', ''industry_Retail'']\<rparr>
     [''industry'' \<mapsto> PStr ''Technology''] =
   Inr \<lparr>columns = [''industry_Tech'', ''industry_Retail''], rows = [[CInt 1, CInt 0]]\<rparr>
   \<and> normalize_industry ''Retail'' = ''Retail''"
proof -
  let ?self = "\<lparr>model = None, feature_names = [''industry_Tech'', ''industry_Retail'']\<rparr>"
  have "prepare_features (\<lambda>x. []) ?self [''industry'' \<mapsto> PStr ''Tech''] =
      Inr \<lparr>columns = [''industry_Tech'', ''industry_Retail''], rows = [[CInt 1, CInt 0]]\<rparr>"
    by (simp add: prepare_features_def align_DataFrame coerce_defs encoder_defs
        synthesize_def one_hot_def)
  with technology_is_tech [of "\<lambda>x. []" Map.empty ?self "''Retail''"] show ?thesis
    by simp
qed

section \<open>Properties of the prediction pipeline\<close>

text \<open>A division by a float that is not zero does not raise.\<close>

lemma fdiv_returns: "b \<noteq> 0 \<Longrightarrow> \<exists>v. fdiv a (Fin b) = Inr v"
  by (cases a) simp_all

text \<open>The factors are computed unless the number of days is beyond the range of a double.\<close>

lemma factors_of_returns:
  "(\<exists>fs. factors_of h s d = Inr fs) \<longleftrightarrow> \<bar>real_of_int d\<bar> < overflow_bound"
  by (simp add: factors_of_def float_of_int_def bind_def Let_def)

lemma trunc_le: "v \<le> real_of_int n \<Longrightarrow> 0 \<le> n \<Longrightarrow> trunc v \<le> n"
  by (simp add: trunc_def floor_le_iff ceiling_le_iff)

text \<open>
  The expected days of a positive probability. Up to 1 the value is the floor of the
  formula, at most 180. Above 1 the first bucket applies and the product \<open>(1 - x) * 50\<close> is
  negative: the days are computed as long as it is within the range of a double, and
  \<^verbatim>\<open>int\<close> raises \<^verbatim>\<open>OverflowError\<close> on minus infinity when it is not.
\<close>

lemma expected_days_unit:
  assumes "0 < x" and "x \<le> 1"
  shows "\<exists>n. expected_days_of (Fin x) = Inr n \<and> n \<le> 180"
proof -
  consider "0.8 < x" | "0.6 < x" "x \<le> 0.8" | "0.4 < x" "x \<le> 0.6" | "x \<le> 0.4"
    by linarith
  then show ?thesis
  proof cases
    case 1
    with low_range [of x] assms show ?thesis by (simp add: expected_days_Fin)
  next
    case 2
    with medium_range [of x] assms show ?thesis by (simp add: expected_days_Fin)
  next
    case 3
    with high_range [of x] assms show ?thesis by (simp add: expected_days_Fin)
  next
    case 4
    with very_high_range [of x] assms show ?thesis by (simp add: expected_days_Fin)
  qed
qed

lemma expected_days_above_one:
  assumes "1 < x" and "(x - 1) * 50 < overflow_bound"
  shows "\<exists>n. expected_days_of (Fin x) = Inr n \<and> n \<le> 180"
proof -
  have a: "\<bar>1 + - x\<bar> < overflow_bound" using assms by simp
  have b: "\<bar>(1 + - x) * 50\<bar> < overflow_bound" using assms by simp
  have c: "\<bar>30 + (1 + - x) * 50\<bar> < overflow_bound"
    using assms overflow_bound_large by (simp add: abs_if)
  have "30 + (1 + - x) * 50 \<le> real_of_int 180" using assms by simp
  then have d: "trunc (30 + (1 + - x) * 50) \<le> 180" by (rule trunc_le) simp
  from assms have "fgt (Fin x) (Fin 0.8)" by (simp add: fgt_def)
  with a b c have "expected_days_of (Fin x) = Inr (trunc (30 + (1 + - x) * 50))"
    by (simp add: expected_days_of_def days_formula_def fsub_def overflow_in_range)
  with d show ?thesis by simp
qed

lemma expected_days_overflow:
  assumes "overflow_bound \<le> (x - 1) * 50"
  shows "expected_days_of (Fin x) = Inl OverflowError"
proof -
  from assms overflow_bound_large have x: "1 < x" by simp
  then have gt: "fgt (Fin x) (Fin 0.8)" by (simp add: fgt_def)
  have neg: "\<not> 0 < (1 + - x) * 50" using x by simp
  have big: "\<not> \<bar>(1 + - x) * 50\<bar> < overflow_bound" using assms x by simp
  have "fmul (overflow (1 + - x)) (Fin 50) = NegInf"
  proof (cases "\<bar>1 + - x\<bar> < overflow_bound")
    case True
    then have "overflow (1 + - x) = Fin (1 + - x)" by (rule overflow_in_range)
    with neg big show ?thesis by (simp add: overflow_def)
  next
    case False
    with x have "overflow (1 + - x) = NegInf" by (simp add: overflow_def)
    then show ?thesis by simp
  qed
  with gt show ?thesis
    by (simp add: expected_days_of_def days_formula_def fsub_def)
qed

text \<open>
  The prediction derived from a positive probability \<open>x\<close> is returned exactly when neither
  the day formula nor \<^verbatim>\<open>float(original_days)\<close> leaves the range of a double.
\<close>

lemma derive_positive:
  assumes "0 < x"
  shows "(\<exists>r. derive acct company now (Fin x) h s d = Inr r)
     \<longleftrightarrow> (x - 1) * 50 < overflow_bound \<and> \<bar>real_of_int d\<bar> < overflow_bound"
proof (cases "(x - 1) * 50 < overflow_bound")
  case True
  have "\<exists>n. expected_days_of (Fin x) = Inr n \<and> n \<le> 180"
  proof (cases "x \<le> 1")
    case True
    with assms show ?thesis by (intro expected_days_unit)
  next
    case False
    with \<open>(x - 1) * 50 < overflow_bound\<close> show ?thesis by (intro expected_days_above_one) simp_all
  qed
  then obtain n where n: "expected_days_of (Fin x) = Inr n" and "n \<le> 180" by blast
  then have m: "float_of_int (max n 1) = Inr (Fin (real_of_int (max n 1)))"
    by (intro float_of_int_small) simp
  have "real_of_int (max n 1) \<noteq> 0" by simp
  then obtain v where v: "fdiv (fmul (Fin x) (Fin 100)) (Fin (real_of_int (max n 1))) = Inr v"
    using fdiv_returns by blast
  show ?thesis
  proof (cases "\<bar>real_of_int d\<bar> < overflow_bound")
    case True
    then obtain fs where "factors_of h s d = Inr fs"
      using factors_of_returns by blast
    with n m v True \<open>(x - 1) * 50 < overflow_bound\<close> show ?thesis
      by (simp add: derive_def bind_def)
  next
    case False
    then have "\<not> (\<exists>fs. factors_of h s d = Inr fs)"
      using factors_of_returns by blast
    with n m v False show ?thesis
      by (auto simp: derive_def bind_def split: sum.splits)
  qed
next
  case False
  then have "expected_days_of (Fin x) = Inl OverflowError"
    by (intro expected_days_overflow) simp
  with False show ?thesis by (simp add: derive_def bind_def)
qed

text \<open>What a returned prediction holds: the fields are the metrics of its probability.\<close>

lemma derive_fields:
  assumes "derive acct company now prob h s d = Inr r"
  shows "recovery_probability r = prob \<and> risk_level r = risk_level_of prob
       \<and> recommended_dca r = dca_of prob \<and> expected_days_of prob = Inr (expected_days r)"
  using assms by (auto simp: derive_def bind_def split: sum.splits)

lemma predict_recovery_fields:
  assumes "predict_recovery frepr now self data = Inr r"
    and "py_str frepr (dict_get data ''account_id'' (PStr ''Unknown'')) \<noteq> ''ACC0001''"
  shows "risk_level r = risk_level_of (recovery_probability r)
       \<and> recommended_dca r = dca_of (recovery_probability r)
       \<and> expected_days_of (recovery_probability r) = Inr (expected_days r)"
  using assms
  by (auto simp: predict_recovery_def bind_def Let_def dest!: derive_fields split: sum.splits)

text \<open>
  C2. A record whose \<^verbatim>\<open>account_id\<close> is the string \<^verbatim>\<open>ACC0001\<close> gets the fixed demonstration
  result: probability 0.925, risk level Low, 25 days, velocity 3.7 and the fixed agency and
  factors, with the company name of the record. Nothing is assumed about the predictor or
  about any other field: no field is coerced, no feature is encoded and the classifier is
  not asked, so a malformed field or a failing classifier cannot change or prevent the
  result.
\<close>

theorem hero_override:
  assumes "data ''account_id'' = Some (PStr ''ACC0001'')"
  shows "\<exists>r. predict_recovery frepr now self data = Inr r
       \<and> r = hero_result (py_str frepr (dict_get data ''company_name''
                (PStr ''Unknown Company''))) now
       \<and> recovery_probability r = Fin 0.925
       \<and> risk_level r = ''Low''
       \<and> expected_days r = 25
       \<and> recovery_velocity_score r = Fin 3.7
       \<and> name (recommended_dca r) = ''In-House Retention Team''
       \<and> map feature (prediction.top_factors r) =
           [''payment_history_score'', ''shipment_volume_change_30d'', ''days_overdue'']
       \<and> map impact (prediction.top_factors r) = [Fin 0.95, Fin 0.40, Fin 0.10]"
  using assms by (simp add: predict_recovery_def dict_get_def hero_result_def)

theorem hero_override_witness:
  "predict_recovery (\<lambda>x. []) ''2026-01-01T00:00:00''
     \<lparr>model = Some (\<lambda>X. Inl LibraryError), feature_names = []\<rparr>
     [''account_id'' \<mapsto> PStr ''ACC0001'', ''amount'' \<mapsto> PStr ''N/A'',
      ''days_overdue'' \<mapsto> PFloat NaN] =
   Inr (hero_result ''Unknown Company'' ''2026-01-01T00:00:00'')
   \<and> get_float [''account_id'' \<mapsto> PStr ''ACC0001'', ''amount'' \<mapsto> PStr ''N/A'',
      ''days_overdue'' \<mapsto> PFloat NaN] ''amount'' = Inl ValueError
   \<and> get_int [''account_id'' \<mapsto> PStr ''ACC0001'', ''amount'' \<mapsto> PStr ''N/A'',
      ''days_overdue'' \<mapsto> PFloat NaN] ''days_overdue'' = Inl ValueError"
proof -
  let ?data = "[''account_id'' \<mapsto> PStr ''ACC0001'', ''amount'' \<mapsto> PStr ''N/A'',
      ''days_overdue'' \<mapsto> PFloat NaN]"
  let ?self = "\<lparr>model = Some (\<lambda>X. Inl LibraryError), feature_names = []\<rparr>"
  have id: "?data ''account_id'' = Some (PStr ''ACC0001'')" by simp
  have parts: "split_sign (strip ''N/A'') = (False, ''N/A'')"
    "map to_lower ''N/A'' = ''n/a''" "decimal_value ''N/A'' = None"
    by code_simp+
  have bad: "float_of_string ''N/A'' = None"
    by (simp only: float_of_string_def parts Let_def prod.case) simp
  from hero_override [where data = ?data and frepr = "\<lambda>x. []" and self = ?self
      and now = "''2026-01-01T00:00:00''", OF id]
  show ?thesis
    by (auto simp: dict_get_def get_float_def get_int_def py_or_def bad)
qed

text \<open>
  C4. Let the account not be the demonstration account and let the four raw values of
  lines 182 to 185 be coerced, the payment history score to \<open>h\<close> and the days to \<open>d\<close>. When
  the inference raises, for whatever reason (no model, an exception of the encoder, an
  exception of the classifier), the exception stops at the handler: the probability is \<open>h\<close>
  when \<open>h > 0\<close> and 0.5 otherwise, the prediction is what the metrics make of this
  probability, and every prediction returned carries this probability. The handler is the
  only use of the fallback and the inference is not run again. The prediction is returned
  unless the arithmetic after the handler leaves the range of a double: the score is
  infinite or so large that \<open>(1 - h) * 50\<close> overflows and \<^verbatim>\<open>int\<close> raises, or the days are too
  many for \<^verbatim>\<open>float(original_days)\<close>.
\<close>

theorem fallback_on_failed_inference:
  assumes "py_str frepr (dict_get data ''account_id'' (PStr ''Unknown'')) \<noteq> ''ACC0001''"
    and "get_float data ''amount'' = Inr a"
    and "get_int data ''days_overdue'' = Inr d"
    and "get_float data ''payment_history_score'' = Inr h"
    and "get_float data ''shipment_volume_change_30d'' = Inr s"
    and "inference frepr self data = Inl e"
  shows "probability frepr self data h = (if fgt h (Fin 0) then h else Fin 0.5)
       \<and> predict_recovery frepr now self data =
           derive (py_str frepr (dict_get data ''account_id'' (PStr ''Unknown'')))
             (py_str frepr (dict_get data ''company_name'' (PStr ''Unknown Company''))) now
             (if fgt h (Fin 0) then h else Fin 0.5) h s d
       \<and> (\<forall>r. predict_recovery frepr now self data = Inr r \<longrightarrow>
              recovery_probability r = (if fgt h (Fin 0) then h else Fin 0.5))
       \<and> ((\<exists>r. predict_recovery frepr now self data = Inr r) \<longleftrightarrow>
            h \<noteq> PosInf \<and> (\<forall>x. h = Fin x \<longrightarrow> (x - 1) * 50 < overflow_bound)
            \<and> \<bar>real_of_int d\<bar> < overflow_bound)"
proof -
  let ?p = "if fgt h (Fin 0) then h else Fin 0.5"
  let ?acct = "py_str frepr (dict_get data ''account_id'' (PStr ''Unknown''))"
  let ?company = "py_str frepr (dict_get data ''company_name'' (PStr ''Unknown Company''))"
  have prob: "probability frepr self data h = ?p"
    using assms(6) by (simp add: probability_def fallback_def)
  have run: "predict_recovery frepr now self data = derive ?acct ?company now ?p h s d"
    using assms(1-5) prob by (simp add: predict_recovery_def bind_def Let_def)
  have carried: "recovery_probability r = ?p"
    if "predict_recovery frepr now self data = Inr r" for r
    using that derive_fields [of ?acct ?company now ?p h s d r] unfolding run by blast
  have half: "(\<exists>r. derive ?acct ?company now (Fin 0.5) h s d = Inr r)
      \<longleftrightarrow> \<bar>real_of_int d\<bar> < overflow_bound"
    using derive_positive [of "0.5" ?acct ?company now h s d] overflow_bound_pos
    by simp
  have returned: "(\<exists>r. predict_recovery frepr now self data = Inr r) \<longleftrightarrow>
      h \<noteq> PosInf \<and> (\<forall>x. h = Fin x \<longrightarrow> (x - 1) * 50 < overflow_bound)
      \<and> \<bar>real_of_int d\<bar> < overflow_bound"
  proof (cases h)
    case (Fin x)
    show ?thesis
    proof (cases "0 < x")
      case True
      with Fin have "?p = Fin x" by (simp add: fgt_def)
      with derive_positive [OF True, of ?acct ?company now h s d] Fin show ?thesis
        unfolding run by simp
    next
      case False
      with Fin have p: "?p = Fin 0.5" by (simp add: fgt_def)
      from False have "(x - 1) * 50 < 0" by simp
      with overflow_bound_pos have "(x - 1) * 50 < overflow_bound" by linarith
      with half Fin show ?thesis unfolding run p by simp
    qed
  next
    case PosInf
    then have "?p = PosInf" by (simp add: fgt_def)
    moreover have "expected_days_of PosInf = Inl OverflowError"
      by (simp add: expected_days_of_def fgt_def days_formula_def fsub_def)
    ultimately show ?thesis
      using PosInf unfolding run by (simp add: derive_def bind_def)
  next
    case NegInf
    then have "?p = Fin 0.5" by (simp add: fgt_def)
    with half NegInf show ?thesis unfolding run by simp
  next
    case NaN
    then have "?p = Fin 0.5" by (simp add: fgt_def)
    with half NaN show ?thesis unfolding run by simp
  qed
  from prob run carried returned show ?thesis by blast
qed

theorem fallback_on_failed_inference_witness:
  "map_sum id recovery_probability
     (predict_recovery (\<lambda>x. []) ''t'' \<lparr>model = None, feature_names = []\<rparr>
        [''account_id'' \<mapsto> PStr ''A7'', ''payment_history_score'' \<mapsto> PFloat (Fin 0.75)])
     = Inr (Fin 0.75)
   \<and> map_sum id recovery_probability
     (predict_recovery (\<lambda>x. []) ''t''
        \<lparr>model = Some (\<lambda>X. Inl LibraryError), feature_names = []\<rparr>
        [''account_id'' \<mapsto> PStr ''A7''])
     = Inr (Fin 0.5)
   \<and> \<not> (\<exists>r. predict_recovery (\<lambda>x. []) ''t'' \<lparr>model = None, feature_names = []\<rparr>
        [''account_id'' \<mapsto> PStr ''A7'', ''payment_history_score'' \<mapsto> PFloat (Fin (10 ^ 307))]
        = Inr r)"
proof -
  let ?d1 = "[''account_id'' \<mapsto> PStr ''A7'', ''payment_history_score'' \<mapsto> PFloat (Fin 0.75)]"
  let ?d2 = "[''account_id'' \<mapsto> PStr ''A7'']"
  let ?d3 = "[''account_id'' \<mapsto> PStr ''A7'',
      ''payment_history_score'' \<mapsto> PFloat (Fin (10 ^ 307))]"
  let ?s1 = "\<lparr>model = None, feature_names = []\<rparr>"
  let ?s2 = "\<lparr>model = Some (\<lambda>X. Inl LibraryError), feature_names = []\<rparr>"
  have i1: "inference (\<lambda>x. []) ?s1 ?d1 = Inl ValueError"
    and i3: "inference (\<lambda>x. []) ?s1 ?d3 = Inl ValueError"
    by (simp_all add: inference_def)
  have f2: "features_of (\<lambda>x. []) ?d2 =
      Inr (synthesize (Fin 0) 0 (Fin 0) (Fin 0) 0 (Fin 0) 0 0 0 0 0 ''Other'' ''Other'')"
    by (simp add: coerce_defs encoder_defs)
  have i2: "inference (\<lambda>x. []) ?s2 ?d2 = Inl LibraryError"
    by (simp add: inference_def prepare_features_def f2 align_def bind_def)
  have t1: "py_str (\<lambda>x. []) (dict_get ?d1 ''account_id'' (PStr ''Unknown'')) \<noteq> ''ACC0001''"
    and t2: "py_str (\<lambda>x. []) (dict_get ?d2 ''account_id'' (PStr ''Unknown'')) \<noteq> ''ACC0001''"
    and t3: "py_str (\<lambda>x. []) (dict_get ?d3 ''account_id'' (PStr ''Unknown'')) \<noteq> ''ACC0001''"
    by (simp_all add: dict_get_def)
  have g1: "get_float ?d1 ''amount'' = Inr (Fin 0)" "get_int ?d1 ''days_overdue'' = Inr 0"
    "get_float ?d1 ''payment_history_score'' = Inr (Fin 0.75)"
    "get_float ?d1 ''shipment_volume_change_30d'' = Inr (Fin 0)"
    by (simp_all add: coerce_defs)
  have g2: "get_float ?d2 ''amount'' = Inr (Fin 0)" "get_int ?d2 ''days_overdue'' = Inr 0"
    "get_float ?d2 ''payment_history_score'' = Inr (Fin 0)"
    "get_float ?d2 ''shipment_volume_change_30d'' = Inr (Fin 0)"
    by (simp_all add: coerce_defs)
  have g3: "get_float ?d3 ''amount'' = Inr (Fin 0)" "get_int ?d3 ''days_overdue'' = Inr 0"
    "get_float ?d3 ''payment_history_score'' = Inr (Fin (10 ^ 307))"
    "get_float ?d3 ''shipment_volume_change_30d'' = Inr (Fin 0)"
    by (simp_all add: coerce_defs)
  note w1 = fallback_on_failed_inference [OF t1 g1 i1, of "''t''"]
  note w2 = fallback_on_failed_inference [OF t2 g2 i2, of "''t''"]
  note w3 = fallback_on_failed_inference [OF t3 g3 i3, of "''t''"]
  note carried1 = w1 [THEN conjunct2, THEN conjunct2, THEN conjunct1, rule_format]
  note returned1 = w1 [THEN conjunct2, THEN conjunct2, THEN conjunct2]
  note carried2 = w2 [THEN conjunct2, THEN conjunct2, THEN conjunct1, rule_format]
  note returned2 = w2 [THEN conjunct2, THEN conjunct2, THEN conjunct2]
  note returned3 = w3 [THEN conjunct2, THEN conjunct2, THEN conjunct2]
  have "\<exists>r. predict_recovery (\<lambda>x. []) ''t'' ?s1 ?d1 = Inr r"
    unfolding returned1 using overflow_bound_large by auto
  then obtain r1 where r1: "predict_recovery (\<lambda>x. []) ''t'' ?s1 ?d1 = Inr r1" ..
  from carried1 [OF r1] have p1: "recovery_probability r1 = Fin 0.75" by (simp add: fgt_def)
  have "\<exists>r. predict_recovery (\<lambda>x. []) ''t'' ?s2 ?d2 = Inr r"
    unfolding returned2 using overflow_bound_large by auto
  then obtain r2 where r2: "predict_recovery (\<lambda>x. []) ''t'' ?s2 ?d2 = Inr r2" ..
  from carried2 [OF r2] have p2: "recovery_probability r2 = Fin 0.5" by (simp add: fgt_def)
  have "\<not> ((10 ^ 307 - 1) * 50 < overflow_bound)"
    by (simp add: overflow_bound_def)
  then have n3: "\<not> (\<exists>r. predict_recovery (\<lambda>x. []) ''t'' ?s1 ?d3 = Inr r)"
    unfolding returned3 by simp
  from r1 p1 r2 p2 n3 show ?thesis by simp
qed

text \<open>
  C7, as the code has it. The agency has three tiers, not four: above 0.8, above 0.6, and
  everything else. A probability in \<open>(0.4, 0.6]\<close> has the risk level High and the agency of
  the last tier, the specialists, which is the agency of the probabilities up to 0.4.
\<close>

theorem high_risk_dca:
  assumes "0.4 < p" and "p \<le> 0.6" and "q \<le> 0.4"
  shows "dca_of (Fin p) = specialist_dca \<and> dca_of (Fin p) = dca_of (Fin q)
       \<and> risk_level_of (Fin p) = ''High''"
  using assms by (simp add: dca_of_def risk_level_of_def fgt_def)

theorem high_risk_dca_witness:
  "dca_of (Fin 0.5) = specialist_dca \<and> dca_of (Fin 0.5) = dca_of (Fin 0.3)
   \<and> risk_level_of (Fin 0.5) = ''High''"
proof -
  have "0.4 < (0.5 :: real)" and "(0.5 :: real) \<le> 0.6" and "(0.3 :: real) \<le> 0.4"
    by simp_all
  then show ?thesis by (rule high_risk_dca)
qed

text \<open>
  C7, as the specification states it, fails: at 0.5 the agency is not the one of the row
  \<open>0.6 < p \<le> 0.8\<close>.
\<close>

theorem high_risk_dca_counterexample:
  "name (dca_of (Fin 0.5)) = ''Recovery Specialists Inc''
   \<and> name (dca_of (Fin 0.7)) = ''Standard Recovery Partners''
   \<and> dca_of (Fin 0.5) \<noteq> dca_of (Fin 0.7)
   \<and> risk_level_of (Fin 0.5) = ''High''"
  by (simp add: dca_of_def risk_level_of_def fgt_def specialist_dca_def standard_dca_def)

section \<open>Properties of the explanation engine\<close>

lemma fle_trans: "fle a b \<Longrightarrow> fle b c \<Longrightarrow> fle a c"
  by (cases a; cases b; cases c) simp_all

lemma flt_imp_fle: "flt a b \<Longrightarrow> fle a b"
  by (cases a; cases b) simp_all

lemma not_flt_imp_fle: "a \<noteq> NaN \<Longrightarrow> b \<noteq> NaN \<Longrightarrow> \<not> flt a b \<Longrightarrow> fle b a"
  by (cases a; cases b) simp_all

lemma fabs_eq_NaN [simp]: "fabs a = NaN \<longleftrightarrow> a = NaN"
  by (cases a) simp_all

lemma set_insort_desc [simp]: "set (insort_desc x ys) = insert x (set ys)"
  by (induction ys) auto

lemma set_sort_desc [simp]: "set (sort_desc fs) = set fs"
  by (induction fs) (simp_all add: sort_desc_def)

lemma sorted_insort_desc:
  assumes "impact x \<noteq> NaN" and "\<forall>y \<in> set ys. impact y \<noteq> NaN"
    and "sorted_wrt (\<lambda>a b. fle (fabs (impact b)) (fabs (impact a))) ys"
  shows "sorted_wrt (\<lambda>a b. fle (fabs (impact b)) (fabs (impact a))) (insort_desc x ys)"
  using assms
proof (induction ys)
  case Nil
  then show ?case by simp
next
  case (Cons y ys)
  show ?case
  proof (cases "flt (fabs (impact x)) (fabs (impact y))")
    case True
    then have "fle (fabs (impact x)) (fabs (impact y))" by (rule flt_imp_fle)
    with True Cons show ?thesis by auto
  next
    case False
    with Cons.prems have xy: "fle (fabs (impact y)) (fabs (impact x))"
      by (intro not_flt_imp_fle) simp_all
    have "fle (fabs (impact z)) (fabs (impact x))" if "z \<in> set ys" for z
    proof -
      from that Cons.prems have "fle (fabs (impact z)) (fabs (impact y))" by simp
      then show ?thesis using xy by (rule fle_trans)
    qed
    with False xy Cons.prems show ?thesis by simp
  qed
qed

lemma sorted_sort_desc:
  "\<forall>f \<in> set fs. impact f \<noteq> NaN \<Longrightarrow>
   sorted_wrt (\<lambda>a b. fle (fabs (impact b)) (fabs (impact a))) (sort_desc fs)"
proof (induction fs)
  case Nil
  then show ?case by (simp add: sort_desc_def)
next
  case (Cons x fs)
  then have "sorted_wrt (\<lambda>a b. fle (fabs (impact b)) (fabs (impact a))) (sort_desc fs)"
    by simp
  with Cons.prems
  have "sorted_wrt (\<lambda>a b. fle (fabs (impact b)) (fabs (impact a)))
      (insort_desc x (sort_desc fs))"
    by (intro sorted_insort_desc) simp_all
  then show ?case by (simp add: sort_desc_def)
qed

lemma sorted_wrt_take: "sorted_wrt P xs \<Longrightarrow> sorted_wrt P (take n xs)"
proof -
  assume "sorted_wrt P xs"
  then have "sorted_wrt P (take n xs @ drop n xs)" by simp
  then show ?thesis unfolding sorted_wrt_append by blast
qed

lemma shap_importance_kept: "f \<in> set (shap_importance df vals) \<Longrightarrow> \<not> negligible (impact f)"
  by (auto simp: shap_importance_def shap_factor_def)

lemma fallback_importance_kept:
  "f \<in> set (fallback_importance df imps) \<Longrightarrow> \<not> negligible (impact f)"
  by (auto simp: fallback_importance_def fallback_factor_def)

lemma feature_importance_kept:
  "f \<in> set (feature_importance self df) \<Longrightarrow> \<not> negligible (impact f)"
  by (auto simp: feature_importance_def Let_def
      dest: shap_importance_kept fallback_importance_kept split: option.splits sum.splits)

text \<open>The factors returned are the first five of the sorted list.\<close>

lemma top_factors_explain_prediction:
  "top_factors (explain_prediction self X_df) =
     (case X_df of
        None \<Rightarrow> []
      | Some df \<Rightarrow> if empty df then [] else take 5 (sort_desc (feature_importance self df)))"
  by (simp add: explain_prediction_def fallback_explanation_def feature_importance_def
      no_explanation_def sort_desc_def Let_def split: option.splits sum.splits)

text \<open>
  C9. Whatever the engine and the frame, \<^verbatim>\<open>explain_prediction\<close> returns at most five factors,
  on the SHAP path and on the fallback path alike; no returned factor has an impact of
  magnitude below \<open>1e-10\<close>; and the factors are in descending order of the magnitude of
  their impact. The order is stated for attributions none of which is NaN: a list with a NaN
  has no descending order.
\<close>

theorem explanation_top_factors:
  "length (top_factors (explain_prediction self X_df)) \<le> 5
   \<and> (\<forall>f \<in> set (top_factors (explain_prediction self X_df)).
         \<not> flt (fabs (impact f)) (Fin (1 / 10 ^ 10)))
   \<and> (case X_df of
         None \<Rightarrow> top_factors (explain_prediction self X_df) = []
       | Some df \<Rightarrow>
           (\<forall>f \<in> set (feature_importance self df). impact f \<noteq> NaN) \<longrightarrow>
           sorted_wrt (\<lambda>a b. fle (fabs (impact b)) (fabs (impact a)))
             (top_factors (explain_prediction self X_df)))"
proof -
  have len: "length (top_factors (explain_prediction self X_df)) \<le> 5"
    by (simp add: top_factors_explain_prediction split: option.splits)
  have kept: "\<not> flt (fabs (impact f)) (Fin (1 / 10 ^ 10))"
    if "f \<in> set (top_factors (explain_prediction self X_df))" for f
  proof (cases X_df)
    case None
    with that show ?thesis by (simp add: top_factors_explain_prediction)
  next
    case (Some df)
    with that have "f \<in> set (take 5 (sort_desc (feature_importance self df)))"
      by (simp add: top_factors_explain_prediction split: if_splits)
    then have "f \<in> set (feature_importance self df)"
      using set_take_subset [of 5 "sort_desc (feature_importance self df)"] by auto
    then show ?thesis
      using feature_importance_kept [of f self df] by (simp add: negligible_def)
  qed
  have order: "sorted_wrt (\<lambda>a b. fle (fabs (impact b)) (fabs (impact a)))
      (top_factors (explain_prediction self (Some df)))"
    if "\<forall>f \<in> set (feature_importance self df). impact f \<noteq> NaN" for df
    using that
    by (simp add: top_factors_explain_prediction sorted_wrt_take sorted_sort_desc)
  show ?thesis
  proof (cases X_df)
    case None
    with len kept show ?thesis by (simp add: top_factors_explain_prediction)
  next
    case (Some df)
    with len kept order [of df] show ?thesis by simp
  qed
qed

theorem explanation_top_factors_witness:
  "map impact (top_factors (explain_prediction
      \<lparr>importance_source = NoImportances,
       explainer = Some (\<lambda>X. Inr (SingleArray (Array2
         [[Fin 0.3, Fin (- 0.9), Fin 0, Fin 0.1, Fin 0.5, Fin (- 0.2), Fin 0.7]]))),
       expected_value = ExpectedUnavailable\<rparr>
      (Some \<lparr>columns = [''a'', ''b'', ''c'', ''d'', ''e'', ''f'', ''g''],
             rows = [[CInt 1, CInt 2, CInt 3, CInt 4, CInt 5, CInt 6, CInt 7]]\<rparr>))) =
     [Fin (- 0.9), Fin 0.7, Fin 0.5, Fin 0.3, Fin (- 0.2)]
   \<and> map impact (top_factors (explain_prediction
      \<lparr>importance_source = FeatureImportances (Inr [Fin 0.2, Fin 0, Fin 0.5]),
       explainer = Some (\<lambda>X. Inl LibraryError),
       expected_value = ExpectedUnavailable\<rparr>
      (Some \<lparr>columns = [''a'', ''b'', ''c''], rows = [[CInt 1, CInt 2, CInt 3]]\<rparr>))) =
     [Fin 0.5, Fin 0.2]"
proof -
  let ?E1 = "\<lparr>importance_source = NoImportances,
       explainer = Some (\<lambda>X. Inr (SingleArray (Array2
         [[Fin 0.3, Fin (- 0.9), Fin 0, Fin 0.1, Fin 0.5, Fin (- 0.2), Fin 0.7]]))),
       expected_value = ExpectedUnavailable\<rparr>"
  let ?D1 = "\<lparr>columns = [''a'', ''b'', ''c'', ''d'', ''e'', ''f'', ''g''],
             rows = [[CInt 1, CInt 2, CInt 3, CInt 4, CInt 5, CInt 6, CInt 7]]\<rparr>"
  let ?E2 = "\<lparr>importance_source = FeatureImportances (Inr [Fin 0.2, Fin 0, Fin 0.5]),
       explainer = Some (\<lambda>X. Inl LibraryError),
       expected_value = ExpectedUnavailable\<rparr>"
  let ?D2 = "\<lparr>columns = [''a'', ''b'', ''c''], rows = [[CInt 1, CInt 2, CInt 3]]\<rparr>"
  have l1: "map impact (feature_importance ?E1 ?D1) =
      [Fin 0.3, Fin (- 0.9), Fin 0.1, Fin 0.5, Fin (- 0.2), Fin 0.7]"
    by (simp add: feature_importance_def bind_def select_class_def single_prediction_def
        shap_importance_def shap_factor_def first_row_def negligible_def)
  have l2: "map impact (feature_importance ?E2 ?D2) = [Fin 0.2, Fin 0.5]"
    by (simp add: feature_importance_def bind_def importances_of_def
        fallback_importance_def fallback_factor_def first_row_def negligible_def)
  have n1: "\<forall>f \<in> set (feature_importance ?E1 ?D1). impact f \<noteq> NaN"
  proof
    fix f assume "f \<in> set (feature_importance ?E1 ?D1)"
    then have "impact f \<in> set (map impact (feature_importance ?E1 ?D1))" by simp
    then show "impact f \<noteq> NaN" unfolding l1 by auto
  qed
  have n2: "\<forall>f \<in> set (feature_importance ?E2 ?D2). impact f \<noteq> NaN"
  proof
    fix f assume "f \<in> set (feature_importance ?E2 ?D2)"
    then have "impact f \<in> set (map impact (feature_importance ?E2 ?D2))" by simp
    then show "impact f \<noteq> NaN" unfolding l2 by auto
  qed
  have e1: "map impact (top_factors (explain_prediction ?E1 (Some ?D1))) =
     [Fin (- 0.9), Fin 0.7, Fin 0.5, Fin 0.3, Fin (- 0.2)]"
    by (simp add: explain_prediction_def empty_def bind_def select_class_def
        single_prediction_def shap_importance_def shap_factor_def first_row_def negligible_def
        sort_desc_def)
  have e2: "map impact (top_factors (explain_prediction ?E2 (Some ?D2))) = [Fin 0.5, Fin 0.2]"
    by (simp add: explain_prediction_def empty_def bind_def fallback_explanation_def
        importances_of_def fallback_importance_def fallback_factor_def first_row_def
        negligible_def sort_desc_def)
  from explanation_top_factors [of ?E1 "Some ?D1"] explanation_top_factors [of ?E2 "Some ?D2"]
    n1 n2 e1 e2
  show ?thesis by simp
qed

section \<open>Properties of the batch analysis\<close>













end
